theory Spec2Isabelle
  imports Complex_Main "HOL-Library.AList" "HOL-Library.Multiset"
begin

section \<open>A Monte Carlo simulator for a time-of-flight neutron reflectometer\<close>

text \<open>
  A shallow embedding of \<^verbatim>\<open>platypus-simulate/tof_simulator.py\<close>: the class
  \<^verbatim>\<open>SpectrumDist\<close> (an empirical wavelength distribution) and the class
  \<^verbatim>\<open>ReflectSimulator\<close> (construction, \<^verbatim>\<open>run\<close> and the \<^verbatim>\<open>reflectivity\<close>
  property).

  Conventions of the embedding:
  \<^item> numpy arrays are lists; a Python float is a \<open>real\<close>, so rounding, \<open>inf\<close> and \<open>nan\<close>
    are outside the model. Where numpy divides by zero without raising, the model has
    HOL's \<open>x / 0 = 0\<close>; a theorem whose conclusion reads such a quotient assumes the
    divisor non-zero.
  \<^item> an exception is a value \<open>Inl e\<close> of a sum type;
  \<^item> attribute mutation is state passing: \<^verbatim>\<open>run\<close> takes the simulator and returns the
    updated one;
  \<^item> the random generator is a state of an arbitrary type \<open>'g\<close>; drawing a variate takes
    a generator state and returns the variate with the next state;
  \<^item> functions of scipy and refnx that the program calls are fields of a record of
    collaborators, so every theorem holds for whatever these functions compute.
\<close>

datatype error = ValueError | ExternalError

subsection \<open>numpy operations used by the program\<close>

text \<open>
  \<^verbatim>\<open>np.linspace(start, stop, num)\<close>: \<open>num\<close> evenly spaced points, the last one set to
  \<open>stop\<close> itself.
\<close>

definition np_linspace :: "real \<Rightarrow> real \<Rightarrow> nat \<Rightarrow> real list" where
  "np_linspace start stop num =
     (if num = 0 then []
      else if num = 1 then [start]
      else map (\<lambda>i. real i * ((stop - start) / real (num - 1)) + start) [0..<num - 1]
           @ [stop])"

text \<open>
  \<^verbatim>\<open>np.interp(x, xp, fp)\<close> at one point \<open>x\<close>. numpy looks for the index \<open>j\<close> with
  \<open>xp[j] \<le> x < xp[j+1]\<close>; for the non-decreasing \<open>xp\<close> that numpy requires, its bisection
  finds the same index as the linear scan written here (numpy itself uses this scan for
  short arrays). For an \<open>xp\<close> that decreases somewhere numpy documents its result as
  meaningless, and the scan is not a model of it: the statements below about
  \<open>interp_at\<close> are about non-decreasing \<open>xp\<close> only.
\<close>

definition interp_at :: "real list \<Rightarrow> real list \<Rightarrow> real \<Rightarrow> real" where
  "interp_at xp fp x =
     (if x > last xp then last fp
      else if x < hd xp then hd fp
      else let j = length (takeWhile (\<lambda>e. e \<le> x) xp) - 1 in
        if j = length xp - 1 then fp ! j
        else if xp ! j = x then fp ! j
        else (fp ! (j + 1) - fp ! j) / (xp ! (j + 1) - xp ! j) * (x - xp ! j) + fp ! j)"

definition np_interp :: "real list \<Rightarrow> real list \<Rightarrow> real list \<Rightarrow> error + real list" where
  "np_interp xs xp fp =
     (if xp = [] then Inl ValueError
      else if length fp \<noteq> length xp then Inl ValueError
      else Inr (map (interp_at xp fp) xs))"

text \<open>
  \<^verbatim>\<open>np.histogram(a, bins)\<close> with an array of bin edges: it raises when the edges
  decrease somewhere; bin \<open>k\<close> counts the values in \<open>[bins[k], bins[k+1])\<close>, and the last
  bin also counts its right edge.
\<close>

definition in_bin :: "real list \<Rightarrow> nat \<Rightarrow> real \<Rightarrow> bool" where
  "in_bin bins k v \<longleftrightarrow>
     bins ! k \<le> v \<and>
     (if Suc k = length bins - 1 then v \<le> bins ! Suc k else v < bins ! Suc k)"

definition np_histogram :: "real list \<Rightarrow> real list \<Rightarrow> error + nat list" where
  "np_histogram a bins =
     (if \<not> sorted bins then Inl ValueError
      else Inr (map (\<lambda>k. length (filter (in_bin bins k) a)) [0..<length bins - 1]))"

text \<open>\<^verbatim>\<open>a[mask]\<close>: the entries of \<open>a\<close> at which the boolean mask is true.\<close>

definition mask_select :: "'a list \<Rightarrow> bool list \<Rightarrow> 'a list" where
  "mask_select a msk = map fst (filter snd (zip a msk))"

text \<open>
  \<^verbatim>\<open>np.digitize(v, bins)\<close> for increasing \<open>bins\<close>: the number of edges that are
  \<open>\<le> v\<close>, so \<open>i\<close> with \<open>bins[i-1] \<le> v < bins[i]\<close>, \<open>0\<close> below the first edge and
  \<open>len(bins)\<close> from the last edge on.
\<close>

definition np_digitize :: "real list \<Rightarrow> real \<Rightarrow> nat" where
  "np_digitize bins v = length (filter (\<lambda>e. e \<le> v) bins)"

text \<open>\<^verbatim>\<open>np.min\<close> of a non-empty list of lengths.\<close>

definition np_min :: "nat list \<Rightarrow> nat" where
  "np_min ns = fold min (tl ns) (hd ns)"

subsection \<open>Collaborators\<close>

text \<open>
  A spline object of scipy (\<^verbatim>\<open>InterpolatedUnivariateSpline\<close>): calling it evaluates
  the spline, \<^verbatim>\<open>integral(lo, hi)\<close> integrates it.
\<close>

record spline =
  spl_call :: "real \<Rightarrow> real"
  spl_integral :: "real \<Rightarrow> real \<Rightarrow> real"

text \<open>
  The reflectivity model handed to the constructor: calling it with \<^verbatim>\<open>x_err=0\<close>
  gives the reflectivity at each momentum transfer; \<^verbatim>\<open>model.bkg.value\<close> is its
  background.
\<close>

record ReflectModel =
  model_call :: "real \<Rightarrow> real"
  model_bkg :: real

record SpectrumDist =
  sd_a :: real
  sd_b :: real
  sd_x :: "real list"
  sd_y :: "real list"
  spl :: spline
  fudge_factor :: real
  x_interpolated_cdf :: "real list"
  interpolated_cdf :: "real list"

text \<open>
  The distribution objects the simulator holds: frozen scipy distributions
  (\<^verbatim>\<open>uniform(loc, scale)\<close>, \<^verbatim>\<open>norm(scale)\<close>, \<^verbatim>\<open>trapz(c, d, loc, scale)\<close>) or a
  \<^verbatim>\<open>SpectrumDist\<close>.
\<close>

datatype distribution =
    Uniform real real
  | Norm real
  | Trapz real real real real
  | Spectrum SpectrumDist

record dataset =
  data_x :: "real list"
  data_y :: "real list"
  data_y_err :: "real list"
  data_x_err :: "real list"

text \<open>
  The functions of refnx, scipy and numpy's random generator that the program calls.
  Those called by the constructor may raise. The generator functions draw one variate;
  \<open>frozen_argcheck\<close> is the test of the parameters of a frozen distribution that
  scipy makes before it draws.
\<close>

record 'g collaborators =
  general_q :: "real \<Rightarrow> real \<Rightarrow> real"
  calculate_wavelength_bins :: "real \<Rightarrow> real \<Rightarrow> real \<Rightarrow> error + real list"
  slit_optimiser :: "real \<Rightarrow> real \<Rightarrow> real \<Rightarrow> real \<Rightarrow> real \<Rightarrow> error + real \<times> real"
  general_div :: "real \<Rightarrow> real \<Rightarrow> real \<Rightarrow> error + real \<times> real \<times> real"
  PN_process :: "real \<Rightarrow> real \<Rightarrow> error + real list \<times> real list"
  simps :: "real list \<Rightarrow> real list \<Rightarrow> real"
  IUS :: "real list \<Rightarrow> real list \<Rightarrow> error + spline"
  frozen_argcheck :: "distribution \<Rightarrow> bool"
  frozen_rvs :: "distribution \<Rightarrow> 'g \<Rightarrow> real \<times> 'g"
  rng_uniform :: "real \<Rightarrow> real \<Rightarrow> 'g \<Rightarrow> real \<times> 'g"
  rng_standard_normal :: "'g \<Rightarrow> real \<times> 'g"
  astype_float32 :: "real \<Rightarrow> real"
  EPdiv :: "real list \<Rightarrow> real list \<Rightarrow> real list \<Rightarrow> real list \<Rightarrow> real list \<times> real list"
  synthesise :: "dataset \<Rightarrow> 'g \<Rightarrow> dataset \<times> 'g"

text \<open>Drawing \<open>n\<close> variates one after the other (\<^verbatim>\<open>size=n\<close>).\<close>

fun draws :: "('g \<Rightarrow> 'a \<times> 'g) \<Rightarrow> nat \<Rightarrow> 'g \<Rightarrow> 'a list \<times> 'g" where
  "draws f 0 g = ([], g)"
| "draws f (Suc n) g =
     (case f g of (v, g1) \<Rightarrow> (case draws f n g1 of (vs, g2) \<Rightarrow> (v # vs, g2)))"

subsection \<open>SpectrumDist\<close>

text \<open>\<^verbatim>\<open>_pdf\<close> and \<^verbatim>\<open>_cdf\<close> at one point.\<close>

definition private_pdf :: "SpectrumDist \<Rightarrow> real \<Rightarrow> real" where
  "private_pdf sd v = spl_call (spl sd) v / fudge_factor sd"

definition private_cdf :: "SpectrumDist \<Rightarrow> real \<Rightarrow> real" where
  "private_cdf sd v = spl_integral (spl sd) (sd_a sd) v / fudge_factor sd"

text \<open>
  The public \<^verbatim>\<open>cdf\<close> inherited from \<^verbatim>\<open>rv_continuous\<close>: it calls \<^verbatim>\<open>_cdf\<close> strictly
  inside the support \<open>(a, b)\<close> and returns 1 from \<open>b\<close> on and 0 up to \<open>a\<close>.
\<close>

definition cdf :: "SpectrumDist \<Rightarrow> real \<Rightarrow> real" where
  "cdf sd v =
     (if sd_a sd < v \<and> v < sd_b sd then private_cdf sd v
      else if sd_b sd \<le> v then 1
      else 0)"

text \<open>\<^verbatim>\<open>_ppf\<close>: linear interpolation into the sampled cumulative function.\<close>

definition private_ppf :: "SpectrumDist \<Rightarrow> real list \<Rightarrow> error + real list" where
  "private_ppf sd qs = np_interp qs (interpolated_cdf sd) (x_interpolated_cdf sd)"

text \<open>
  \<^verbatim>\<open>SpectrumDist.__init__(x, y)\<close>. \<^verbatim>\<open>np.min\<close> of an empty array raises. The cumulative
  grid is computed by the public \<^verbatim>\<open>cdf\<close> once \<open>a\<close>, \<open>b\<close>, the spline and the fudge
  factor are set.
\<close>

definition SpectrumDist_init ::
  "'g collaborators \<Rightarrow> real list \<Rightarrow> real list \<Rightarrow> error + SpectrumDist" where
  "SpectrumDist_init env x y =
     (if x = [] then Inl ValueError
      else
        let area = simps env y x;
            y1 = map (\<lambda>v. v / area) y
        in case IUS env x y1 of
             Inl e \<Rightarrow> Inl e
           | Inr s \<Rightarrow>
               let a = Min (set x);
                   b = Max (set x);
                   sd = \<lparr>sd_a = a, sd_b = b, sd_x = x, sd_y = y1, spl = s,
                         fudge_factor = spl_integral s a b,
                         x_interpolated_cdf = np_linspace a b 1000,
                         interpolated_cdf = []\<rparr>
               in Inr (sd\<lparr>interpolated_cdf := map (cdf sd) (x_interpolated_cdf sd)\<rparr>))"

text \<open>
  \<^verbatim>\<open>rvs(n, random_state=rng)\<close>. A frozen scipy distribution draws through the
  collaborator, and raises \<^verbatim>\<open>ValueError\<close> when its parameters fail scipy's test; a
  \<^verbatim>\<open>SpectrumDist\<close> draws uniform noise and maps it through \<^verbatim>\<open>_ppf\<close>, as the class
  documents.
\<close>

definition rvs ::
  "'g collaborators \<Rightarrow> distribution \<Rightarrow> nat \<Rightarrow> 'g \<Rightarrow> error + real list \<times> 'g" where
  "rvs env d n g =
     (case d of
        Spectrum sd \<Rightarrow>
          (case draws (rng_uniform env 0 1) n g of
             (u, g1) \<Rightarrow>
               (case private_ppf sd u of Inl e \<Rightarrow> Inl e | Inr w \<Rightarrow> Inr (w, g1)))
      | _ \<Rightarrow>
          if frozen_argcheck env d then Inr (draws (frozen_rvs env d) n g)
          else Inl ValueError)"

subsection \<open>ReflectSimulator\<close>

record ReflectSimulator =
  model :: ReflectModel
  bkg :: real
  angle :: real
  dlambda :: real
  rebin :: real
  wavelength_bins :: "real list"
  nominal_q :: "real list"
  direct_beam :: "nat list"
  reflected_beam :: "nat list"
  force_uniform_wavelength :: bool
  spectrum_dist :: distribution
  force_gaussian :: bool
  res_kernel :: "(nat \<times> real list) list"
  min_samples :: nat
  dtheta :: real
  footprint :: real
  angular_dist :: distribution

text \<open>The constructor's arguments after the model, with their defaults.\<close>

record init_args =
  arg_angle :: real
  arg_L12 :: real
  arg_footprint :: real
  arg_L2S :: real
  arg_dtheta :: real
  arg_lo_wavelength :: real
  arg_hi_wavelength :: real
  arg_dlambda :: real
  arg_rebin :: real
  arg_force_gaussian :: bool
  arg_force_uniform_wavelength :: bool

definition default_args :: "real \<Rightarrow> init_args" where
  "default_args ang =
     \<lparr>arg_angle = ang, arg_L12 = 2859, arg_footprint = 60, arg_L2S = 120,
      arg_dtheta = 3.3, arg_lo_wavelength = 2.8, arg_hi_wavelength = 18,
      arg_dlambda = 3.3, arg_rebin = 2, arg_force_gaussian = False,
      arg_force_uniform_wavelength = False\<rparr>"

text \<open>
  The wavelength generator chosen by the constructor (lines 209 to 222): a uniform
  distribution, or a \<^verbatim>\<open>SpectrumDist\<close> of the processed direct-beam spectrum.
\<close>

definition make_spectrum_dist :: "'g collaborators \<Rightarrow> init_args \<Rightarrow> error + distribution" where
  "make_spectrum_dist env args =
     (if arg_force_uniform_wavelength args then
        Inr (Uniform (arg_lo_wavelength args - 1)
                     (arg_hi_wavelength args - arg_lo_wavelength args + 1))
      else
        case PN_process env (max 0 (arg_lo_wavelength args - 1)) (arg_hi_wavelength args + 1) of
          Inl e \<Rightarrow> Inl e
        | Inr (qs, is) \<Rightarrow>
            (case SpectrumDist_init env qs is of
               Inl e \<Rightarrow> Inl e
             | Inr sd \<Rightarrow> Inr (Spectrum sd)))"

text \<open>
  \<^verbatim>\<open>ReflectSimulator.__init__\<close>. The statements are in the order of the source, so the
  first failing call decides the error. \<^verbatim>\<open>np.zeros(size - 1)\<close> raises for an empty
  array of bin edges.
\<close>

definition ReflectSimulator_init ::
  "'g collaborators \<Rightarrow> ReflectModel \<Rightarrow> init_args \<Rightarrow> error + ReflectSimulator" where
  "ReflectSimulator_init env m args =
     (case calculate_wavelength_bins env (arg_lo_wavelength args) (arg_hi_wavelength args)
             (arg_rebin args) of
        Inl e \<Rightarrow> Inl e
      | Inr bins \<Rightarrow>
          let bin_centre = map2 (\<lambda>u v. 0.5 * (u + v)) (tl bins) (butlast bins) in
          if bins = [] then Inl ValueError
          else
            case make_spectrum_dist env args of
              Inl e \<Rightarrow> Inl e
            | Inr sdist \<Rightarrow>
                (case slit_optimiser env (arg_footprint args) (arg_dtheta args / 100)
                        (arg_angle args) (arg_L2S args) (arg_L12 args) of
                   Inl e \<Rightarrow> Inl e
                 | Inr (s1, s2) \<Rightarrow>
                     (case general_div env s1 s2 (arg_L12 args) of
                        Inl e \<Rightarrow> Inl e
                      | Inr (dv, alpha, beta) \<Rightarrow>
                          Inr \<lparr>model = m,
                               bkg = model_bkg m,
                               angle = arg_angle args,
                               dlambda = arg_dlambda args / 100,
                               rebin = arg_rebin args / 100,
                               wavelength_bins = bins,
                               nominal_q = map (general_q env (arg_angle args)) bin_centre,
                               direct_beam = replicate (length bins - 1) 0,
                               reflected_beam = replicate (length bins - 1) 0,
                               force_uniform_wavelength = arg_force_uniform_wavelength args,
                               spectrum_dist = sdist,
                               force_gaussian = arg_force_gaussian args,
                               res_kernel = [],
                               min_samples = 0,
                               dtheta = arg_dtheta args / 100,
                               footprint = arg_footprint args,
                               angular_dist =
                                 (if arg_force_gaussian args then Norm (dv / 2.3548)
                                  else Trapz ((alpha - beta) / 2 / alpha)
                                             ((alpha + beta) / 2 / alpha)
                                             (- alpha) (2 * alpha))\<rparr>)))"

text \<open>
  The first part of \<^verbatim>\<open>run\<close> (lines 274 to 306): the sampled neutrons of one call.
\<close>

record batch =
  angles :: "real list"
  wavelengths :: "real list"
  batch_q :: "real list"
  batch_r :: "real list"
  criterion :: "real list"
  accepted :: "bool list"
  noise :: "real list"
  jittered_wavelengths :: "real list"

definition jitter :: "ReflectSimulator \<Rightarrow> real \<Rightarrow> real \<Rightarrow> real" where
  "jitter sim w nz =
     (if force_gaussian sim then w * (1 + dlambda sim / 2.3548 * nz)
      else w * (1 + dlambda sim / 0.68 * nz))"

definition sample_batch ::
  "'g collaborators \<Rightarrow> ReflectSimulator \<Rightarrow> nat \<Rightarrow> 'g \<Rightarrow> error + batch \<times> 'g" where
  "sample_batch env sim samples g =
     (case rvs env (angular_dist sim) samples g of
        Inl e \<Rightarrow> Inl e
      | Inr (offsets, g1) \<Rightarrow>
          (case rvs env (spectrum_dist sim) samples g1 of
             Inl e \<Rightarrow> Inl e
           | Inr (ws, g2) \<Rightarrow>
               (case draws (rng_uniform env 0 1) samples g2 of
                  (crit, g3) \<Rightarrow>
                    (case (if force_gaussian sim
                           then draws (rng_standard_normal env) samples g3
                           else draws (rng_uniform env (- 0.5) 0.5) samples g3) of
                       (nz, g4) \<Rightarrow>
                         let angs = map (\<lambda>v. v + angle sim) offsets;
                             qs = map2 (general_q env) angs ws;
                             rs = map (model_call (model sim)) qs
                         in Inr (\<lparr>angles = angs, wavelengths = ws, batch_q = qs,
                                   batch_r = rs, criterion = crit,
                                   accepted = map2 (\<lambda>c r. c < r) crit rs,
                                   noise = nz,
                                   jittered_wavelengths = map2 (jitter sim) ws nz\<rparr>, g4)))))"

text \<open>
  One turn of the loop over the bins at the end of \<^verbatim>\<open>run\<close>: the momentum transfers
  of the neutrons whose jittered wavelength is in bin \<open>i\<close> are appended to what the
  dictionary has for key \<open>i - 1\<close> (nothing when the key is absent), in single precision.
\<close>

definition kernel_step ::
  "'g collaborators \<Rightarrow> real list \<Rightarrow> nat list \<Rightarrow> nat \<Rightarrow>
   (nat \<times> real list) list \<Rightarrow> (nat \<times> real list) list" where
  "kernel_step env qs bin_loc i kern =
     (let q_for_bin = mask_select qs (map (\<lambda>l. l = i) bin_loc);
          q_samples_so_far = (case map_of kern (i - 1) of None \<Rightarrow> [] | Some v \<Rightarrow> v);
          updated_samples = q_samples_so_far @ q_for_bin
      in AList.update (i - 1) (map (astype_float32 env) updated_samples) kern)"

text \<open>
  The histogram part of \<^verbatim>\<open>run\<close> (lines 308 to 318). Both histograms are taken over
  the same edges, so this part either raises before any attribute is changed or updates
  both tallies. Each tally has one entry per bin, as the histograms have.
\<close>

definition update_counts :: "ReflectSimulator \<Rightarrow> batch \<Rightarrow> error + ReflectSimulator" where
  "update_counts sim bt =
     (case np_histogram (jittered_wavelengths bt) (wavelength_bins sim) of
        Inl e \<Rightarrow> Inl e
      | Inr h \<Rightarrow>
          (case np_histogram (mask_select (jittered_wavelengths bt) (accepted bt))
                  (wavelength_bins sim) of
             Inl e \<Rightarrow> Inl e
           | Inr hr \<Rightarrow>
               Inr (sim\<lparr>direct_beam := map2 (+) (direct_beam sim) h,
                        reflected_beam := map2 (+) (reflected_beam sim) hr\<rparr>)))"

text \<open>
  The resolution-kernel part of \<^verbatim>\<open>run\<close> (lines 320 to 338): nothing is done when the
  dictionary is non-empty and its shortest entry has more than 500000 samples.
\<close>

definition update_res_kernel ::
  "'g collaborators \<Rightarrow> ReflectSimulator \<Rightarrow> batch \<Rightarrow> ReflectSimulator" where
  "update_res_kernel env sim bt =
     (if res_kernel sim \<noteq> [] \<and>
         np_min (map (\<lambda>kv. length (snd kv)) (res_kernel sim)) > 500000
      then sim
      else
        let bin_loc = map (np_digitize (wavelength_bins sim)) (jittered_wavelengths bt)
        in sim\<lparr>res_kernel :=
                 fold (kernel_step env (batch_q bt) bin_loc)
                      [1..<length (wavelength_bins sim)]
                      (res_kernel sim)\<rparr>)"

text \<open>
  The parts of the resolution-kernel update by name: the test of the cap, what the
  dictionary has for a key (\<^verbatim>\<open>get(i - 1, np.array([]))\<close>), and the momentum transfers
  of a call whose jittered wavelength is digitized to the bin of key \<open>k\<close>, which the
  loop visits at \<open>i = k + 1\<close>.
\<close>

definition cap_reached :: "ReflectSimulator \<Rightarrow> bool" where
  "cap_reached sim \<longleftrightarrow>
     res_kernel sim \<noteq> [] \<and>
     np_min (map (\<lambda>kv. length (snd kv)) (res_kernel sim)) > 500000"

definition q_samples_so_far :: "(nat \<times> real list) list \<Rightarrow> nat \<Rightarrow> real list" where
  "q_samples_so_far kern k = (case map_of kern k of None \<Rightarrow> [] | Some v \<Rightarrow> v)"

definition q_for_bin :: "real list \<Rightarrow> batch \<Rightarrow> nat \<Rightarrow> real list" where
  "q_for_bin bins bt k =
     mask_select (batch_q bt)
       (map (\<lambda>l. l = Suc k) (map (np_digitize bins) (jittered_wavelengths bt)))"

text \<open>
  \<^verbatim>\<open>run(samples, random_state)\<close> from the generator state \<open>g\<close> that
  \<^verbatim>\<open>check_random_state\<close> gives; the result has the generator state after the call.
\<close>

definition run ::
  "'g collaborators \<Rightarrow> ReflectSimulator \<Rightarrow> nat \<Rightarrow> 'g \<Rightarrow> error + ReflectSimulator \<times> 'g" where
  "run env sim samples g =
     (case sample_batch env sim samples g of
        Inl e \<Rightarrow> Inl e
      | Inr (bt, g1) \<Rightarrow>
          (case update_counts sim bt of
             Inl e \<Rightarrow> Inl e
           | Inr sim1 \<Rightarrow> Inr (update_res_kernel env sim1 bt, g1)))"

text \<open>
  A sequence of \<^verbatim>\<open>run\<close> calls, each with its sample count and its generator state; an
  exception ends the sequence.
\<close>

fun runs ::
  "'g collaborators \<Rightarrow> ReflectSimulator \<Rightarrow> (nat \<times> 'g) list \<Rightarrow> error + ReflectSimulator" where
  "runs env sim [] = Inr sim"
| "runs env sim ((n, g) # calls) =
     (case run env sim n g of
        Inl e \<Rightarrow> Inl e
      | Inr (sim1, g1) \<Rightarrow> runs env sim1 calls)"

text \<open>
  The \<^verbatim>\<open>reflectivity\<close> property: the data handed to \<^verbatim>\<open>ReflectDataset\<close> and then to
  its \<^verbatim>\<open>synthesise\<close> method.
\<close>

definition reflectivity_data :: "'g collaborators \<Rightarrow> ReflectSimulator \<Rightarrow> dataset" where
  "reflectivity_data env sim =
     (let rerr = map (\<lambda>c. sqrt (real c)) (reflected_beam sim);
          ierr = map (\<lambda>c. sqrt (real c)) (direct_beam sim);
          dx = sqrt ((dlambda sim)\<^sup>2 + (dtheta sim)\<^sup>2 + (0.68 * rebin sim)\<^sup>2)
      in case EPdiv env (map real (reflected_beam sim)) rerr (map real (direct_beam sim)) ierr of
           (ref, rerr1) \<Rightarrow>
             \<lparr>data_x = nominal_q sim, data_y = ref, data_y_err = rerr1,
              data_x_err = map (\<lambda>v. dx * v) (nominal_q sim)\<rparr>)"

definition reflectivity ::
  "'g collaborators \<Rightarrow> ReflectSimulator \<Rightarrow> 'g \<Rightarrow> dataset \<times> 'g" where
  "reflectivity env sim g = synthesise env (reflectivity_data env sim) g"

text \<open>
  The support of a distribution object: scipy's \<^verbatim>\<open>uniform(loc, scale)\<close> and
  \<^verbatim>\<open>trapz(c, d, loc, scale)\<close> live on \<open>[loc, loc + scale]\<close>, a \<^verbatim>\<open>SpectrumDist\<close> on
  \<open>[a, b]\<close>, a normal distribution on the whole line.
\<close>

definition support :: "distribution \<Rightarrow> (real \<times> real) option" where
  "support d =
     (case d of
        Uniform loc scale \<Rightarrow> Some (loc, loc + scale)
      | Norm scale \<Rightarrow> None
      | Trapz c d loc scale \<Rightarrow> Some (loc, loc + scale)
      | Spectrum sd \<Rightarrow> Some (sd_a sd, sd_b sd))"

text \<open>
  Two simulators are identically configured when they agree on everything but the
  accumulated state: the two tallies and the resolution-kernel dictionary.
\<close>

definition same_configuration :: "ReflectSimulator \<Rightarrow> ReflectSimulator \<Rightarrow> bool" where
  "same_configuration s t \<longleftrightarrow>
     s\<lparr>direct_beam := [], reflected_beam := [], res_kernel := []\<rparr> =
     t\<lparr>direct_beam := [], reflected_beam := [], res_kernel := []\<rparr>"

text \<open>
  The accept/reject rule of line 294 under a uniform criterion of resolution \<open>N\<close>: of
  the \<open>N\<close> equally likely criterion values \<open>0, 1/N, ..., (N - 1)/N\<close>, the fraction for
  which a neutron of reflectivity \<open>r\<close> is accepted.
\<close>

definition acceptance_frequency :: "nat \<Rightarrow> real \<Rightarrow> real" where
  "acceptance_frequency N r =
     real (length (filter (\<lambda>k. real k / real N < r) [0..<N])) / real N"

text \<open>
  The invariant of the two tallies: one entry per bin each, and no bin with more
  reflected than direct counts.
\<close>

definition counts_ok :: "ReflectSimulator \<Rightarrow> bool" where
  "counts_ok sim \<longleftrightarrow>
     length (direct_beam sim) = length (wavelength_bins sim) - 1 \<and>
     length (reflected_beam sim) = length (wavelength_bins sim) - 1 \<and>
     (\<forall>k < length (wavelength_bins sim) - 1. reflected_beam sim ! k \<le> direct_beam sim ! k)"

subsection \<open>An example configuration\<close>

text \<open>
  Concrete collaborators on which the theorems below are instantiated. The generator
  state is a number in \<open>[0, 1)\<close>, and every draw is derived from it and leaves it as it
  is, so that a call with \<open>n\<close> samples draws \<open>n\<close> equal neutrons. The bin calculation
  gives two bins over the wavelength range; the spline is the constant one through the
  first ordinate. The parameter test of the frozen distributions asks for a
  non-negative scale and, for the trapezoid, \<open>0 \<le> c \<le> d \<le> 1\<close>. The dataset container
  returns its points in reversed order, which is the ascending order of the momentum
  transfers of bins of increasing wavelength.
\<close>

definition ex_env :: "real collaborators" where
  "ex_env =
     \<lparr>general_q = (\<lambda>ang w. ang / w),
      calculate_wavelength_bins = (\<lambda>lo hi rb. Inr [lo, (lo + hi) / 2, hi]),
      slit_optimiser = (\<lambda>fp res ang l2s l12. Inr (fp * res, fp * res / 2)),
      general_div =
        (\<lambda>s1 s2 l12. Inr ((s1 + s2) / l12, (s1 + s2) / (2 * l12), \<bar>s1 - s2\<bar> / (2 * l12))),
      PN_process = (\<lambda>lo hi. Inr ([lo, (lo + hi) / 2, hi], [2, 2, 2])),
      simps = (\<lambda>y x. hd y * (last x - hd x)),
      IUS = (\<lambda>x y. Inr \<lparr>spl_call = (\<lambda>v. hd y), spl_integral = (\<lambda>lo hi. hd y * (hi - lo))\<rparr>),
      frozen_argcheck =
        (\<lambda>d. case d of
               Uniform loc scale \<Rightarrow> 0 \<le> scale
             | Norm scale \<Rightarrow> 0 \<le> scale
             | Trapz c d loc scale \<Rightarrow> 0 \<le> c \<and> c \<le> d \<and> d \<le> 1 \<and> 0 \<le> scale
             | Spectrum sd \<Rightarrow> True),
      frozen_rvs =
        (\<lambda>d g. (case d of
                   Uniform loc scale \<Rightarrow> loc + scale * g
                 | Norm scale \<Rightarrow> scale * (g - 1 / 2)
                 | Trapz c d loc scale \<Rightarrow> loc + scale * g
                 | Spectrum sd \<Rightarrow> g, g)),
      rng_uniform = (\<lambda>lo hi g. (lo + (hi - lo) * g, g)),
      rng_standard_normal = (\<lambda>g. (g - 1 / 2, g)),
      astype_float32 = (\<lambda>v. v),
      EPdiv = (\<lambda>a da b db. (map2 (/) a b, map2 (/) da b)),
      synthesise =
        (\<lambda>d g. (\<lparr>data_x = rev (data_x d), data_y = rev (data_y d),
                   data_y_err = rev (data_y_err d), data_x_err = rev (data_x_err d)\<rparr>, g))\<rparr>"

definition ex_model :: ReflectModel where
  "ex_model = \<lparr>model_call = (\<lambda>q. 3 / 4), model_bkg = 0\<rparr>"

definition ex_args :: init_args where
  "ex_args = (default_args 1)\<lparr>arg_force_uniform_wavelength := True\<rparr>"

text \<open>The simulator constructed from the example arguments.\<close>

definition ex_sim0 :: ReflectSimulator where
  "ex_sim0 =
     \<lparr>model = ex_model, bkg = 0, angle = 1, dlambda = 33 / 1000, rebin = 1 / 50,
      wavelength_bins = [14 / 5, 52 / 5, 18], nominal_q = [5 / 33, 5 / 71],
      direct_beam = [0, 0], reflected_beam = [0, 0], force_uniform_wavelength = True,
      spectrum_dist = Uniform (9 / 5) (81 / 5), force_gaussian = False,
      res_kernel = [], min_samples = 0, dtheta = 33 / 1000, footprint = 60,
      angular_dist = Trapz (1 / 3) (2 / 3) (- (99 / 190600)) (99 / 95300)\<rparr>"

text \<open>The neutrons of a call with \<open>n\<close> samples from the generator state \<open>g\<close>.\<close>

definition ex_batch :: "nat \<Rightarrow> real \<Rightarrow> batch" where
  "ex_batch n g =
     \<lparr>angles = replicate n (1 + (- (99 / 190600) + 99 / 95300 * g)),
      wavelengths = replicate n (9 / 5 + 81 / 5 * g),
      batch_q = replicate n ((1 + (- (99 / 190600) + 99 / 95300 * g)) / (9 / 5 + 81 / 5 * g)),
      batch_r = replicate n (3 / 4),
      criterion = replicate n g,
      accepted = replicate n (g < 3 / 4),
      noise = replicate n (g - 1 / 2),
      jittered_wavelengths =
        replicate n ((9 / 5 + 81 / 5 * g) * (1 + 33 / 1000 / 0.68 * (g - 1 / 2)))\<rparr>"

text \<open>
  States of the example simulator: after a call with 2 samples from the generator state
  \<open>1/2\<close> (both neutrons accepted, in the first bin), and after a further call with 3
  samples from \<open>9/10\<close> (all three rejected, in the second bin).
\<close>

definition ex_sim1 :: ReflectSimulator where
  "ex_sim1 =
     ex_sim0\<lparr>direct_beam := [2, 0], reflected_beam := [2, 0],
             res_kernel := [(0, replicate 2 (10 / 99)), (1, [])]\<rparr>"

definition ex_sim2 :: ReflectSimulator where
  "ex_sim2 =
     ex_sim0\<lparr>direct_beam := [2, 3], reflected_beam := [2, 0],
             res_kernel := [(0, replicate 2 (10 / 99)),
                            (1, replicate 3 (238349 / 3902535))]\<rparr>"

text \<open>
  States with many stored samples: the first bin alone over 500000, the first bin two
  samples further, and both bins over 500000.
\<close>

definition ex_big1 :: ReflectSimulator where
  "ex_big1 =
     ex_sim0\<lparr>direct_beam := [500001, 0], reflected_beam := [500001, 0],
             res_kernel := [(0, replicate 500001 (10 / 99)), (1, [])]\<rparr>"

definition ex_big2 :: ReflectSimulator where
  "ex_big2 =
     ex_sim0\<lparr>direct_beam := [500003, 0], reflected_beam := [500003, 0],
             res_kernel := [(0, replicate 500003 (10 / 99)), (1, [])]\<rparr>"

definition ex_full :: ReflectSimulator where
  "ex_full =
     ex_sim0\<lparr>direct_beam := [500001, 500001], reflected_beam := [500001, 0],
             res_kernel := [(0, replicate 500001 (10 / 99)),
                            (1, replicate 500001 (238349 / 3902535))]\<rparr>"

text \<open>
  The first bin over 500000 and three samples in the second bin, and that state after
  a further call with 2 samples in the first bin.
\<close>

definition ex_big3 :: ReflectSimulator where
  "ex_big3 =
     ex_sim0\<lparr>direct_beam := [500001, 3], reflected_beam := [500001, 0],
             res_kernel := [(0, replicate 500001 (10 / 99)),
                            (1, replicate 3 (238349 / 3902535))]\<rparr>"

definition ex_big4 :: ReflectSimulator where
  "ex_big4 =
     ex_sim0\<lparr>direct_beam := [500003, 3], reflected_beam := [500003, 0],
             res_kernel := [(0, replicate 500003 (10 / 99)),
                            (1, replicate 3 (238349 / 3902535))]\<rparr>"

text \<open>The state \<open>ex_full\<close> after one and after two further calls with 2 samples.\<close>

definition ex_full1 :: ReflectSimulator where
  "ex_full1 = ex_full\<lparr>direct_beam := [500003, 500001], reflected_beam := [500003, 0]\<rparr>"

definition ex_full2 :: ReflectSimulator where
  "ex_full2 = ex_full\<lparr>direct_beam := [500005, 500001], reflected_beam := [500005, 0]\<rparr>"

text \<open>
  The \<^verbatim>\<open>SpectrumDist\<close> of the table \<open>x = [0, 1, 2, 3]\<close>, \<open>y = [1, 1, 1, 1]\<close> under the
  example collaborators: the density is the constant \<open>1/3\<close> on \<open>[0, 3]\<close>.
\<close>

definition ex_sd0 :: SpectrumDist where
  "ex_sd0 =
     \<lparr>sd_a = 0, sd_b = 3, sd_x = [0, 1, 2, 3], sd_y = [1 / 3, 1 / 3, 1 / 3, 1 / 3],
      spl = \<lparr>spl_call = (\<lambda>v. 1 / 3), spl_integral = (\<lambda>lo hi. 1 / 3 * (hi - lo))\<rparr>,
      fudge_factor = 1, x_interpolated_cdf = np_linspace 0 3 1000,
      interpolated_cdf = []\<rparr>"

definition ex_sd :: SpectrumDist where
  "ex_sd = ex_sd0\<lparr>interpolated_cdf := map (cdf ex_sd0) (np_linspace 0 3 1000)\<rparr>"





text \<open>
  Constructor arguments with a negative footprint and negative slit distances, and the
  simulator the constructor returns for them under the example collaborators.
\<close>

definition bad_args :: init_args where
  "bad_args = ex_args\<lparr>arg_L12 := - 2859, arg_footprint := - 60, arg_L2S := - 120\<rparr>"

definition bad_sim :: ReflectSimulator where
  "bad_sim =
     ex_sim0\<lparr>footprint := - 60,
             angular_dist := Trapz (2 / 3) (1 / 3) (- (99 / 190600)) (99 / 95300)\<rparr>"

section \<open>Properties\<close>

subsection \<open>Evaluating the example\<close>

lemma draws_const:
  assumes "\<And>s. f s = (h s, s)"
  shows "draws f n g = (replicate n (h g), g)"
  by (induction n) (simp_all add: assms)

lemma length_draws: "length (fst (draws f n g)) = n"
proof (induction n arbitrary: g)
  case 0
  show ?case by simp
next
  case (Suc n)
  obtain v g1 where f: "f g = (v, g1)" by (cases "f g")
  obtain vs g2 where d: "draws f n g1 = (vs, g2)" by (cases "draws f n g1")
  from Suc.IH[of g1] d have "length vs = n" by simp
  with f d show ?case by simp
qed

lemma ex_init: "ReflectSimulator_init ex_env ex_model ex_args = Inr ex_sim0"
  by (simp add: ReflectSimulator_init_def make_spectrum_dist_def ex_env_def ex_model_def
      ex_args_def default_args_def ex_sim0_def)

lemma ex_argcheck:
  "frozen_argcheck ex_env (Uniform loc scale) \<longleftrightarrow> 0 \<le> scale"
  "frozen_argcheck ex_env (Norm scale) \<longleftrightarrow> 0 \<le> scale"
  "frozen_argcheck ex_env (Trapz c d loc scale) \<longleftrightarrow> 0 \<le> c \<and> c \<le> d \<and> d \<le> 1 \<and> 0 \<le> scale"
  by (simp_all add: ex_env_def)

lemma ex_draws:
  "draws (rng_uniform ex_env lo hi) n g = (replicate n (lo + (hi - lo) * g), g)"
  "draws (rng_standard_normal ex_env) n g = (replicate n (g - 1 / 2), g)"
  "draws (frozen_rvs ex_env (Uniform loc scale)) n g = (replicate n (loc + scale * g), g)"
  "draws (frozen_rvs ex_env (Trapz c d loc scale)) n g = (replicate n (loc + scale * g), g)"
  "draws (frozen_rvs ex_env (Norm scale)) n g = (replicate n (scale * (g - 1 / 2)), g)"
  by (rule draws_const, simp add: ex_env_def)+

lemma same_configurationD:
  assumes "same_configuration s t"
  shows "model s = model t" and "angle s = angle t" and "dlambda s = dlambda t"
    and "wavelength_bins s = wavelength_bins t" and "spectrum_dist s = spectrum_dist t"
    and "force_gaussian s = force_gaussian t" and "angular_dist s = angular_dist t"
proof -
  have e: "s\<lparr>direct_beam := [], reflected_beam := [], res_kernel := []\<rparr> =
           t\<lparr>direct_beam := [], reflected_beam := [], res_kernel := []\<rparr>"
    using assms by (simp only: same_configuration_def)
  from arg_cong[OF e, of model] show "model s = model t" by simp
  from arg_cong[OF e, of angle] show "angle s = angle t" by simp
  from arg_cong[OF e, of dlambda] show "dlambda s = dlambda t" by simp
  from arg_cong[OF e, of wavelength_bins] show "wavelength_bins s = wavelength_bins t" by simp
  from arg_cong[OF e, of spectrum_dist] show "spectrum_dist s = spectrum_dist t" by simp
  from arg_cong[OF e, of force_gaussian] show "force_gaussian s = force_gaussian t" by simp
  from arg_cong[OF e, of angular_dist] show "angular_dist s = angular_dist t" by simp
qed

lemma ex_same_configuration:
  "same_configuration ex_sim0 ex_sim0" "same_configuration ex_sim1 ex_sim0"
  "same_configuration ex_sim2 ex_sim0" "same_configuration ex_big1 ex_sim0"
  "same_configuration ex_big2 ex_sim0" "same_configuration ex_full ex_sim0"
  by (simp_all add: same_configuration_def ex_sim1_def ex_sim2_def ex_big1_def ex_big2_def
      ex_full_def)

lemma ex_sample_batch:
  assumes "same_configuration sim ex_sim0"
  shows "sample_batch ex_env sim n g = Inr (ex_batch n g, g)"
proof -
  have q: "general_q ex_env = (\<lambda>ang w. ang / w)" by (simp add: ex_env_def)
  show ?thesis
    by (simp add: sample_batch_def rvs_def jitter_def same_configurationD[OF assms]
        ex_sim0_def ex_model_def ex_batch_def q ex_draws ex_argcheck)
qed

lemma ex_bins:
  assumes "same_configuration sim ex_sim0"
  shows "wavelength_bins sim = [14 / 5, 52 / 5, 18]"
  by (simp add: same_configurationD[OF assms] ex_sim0_def)

lemma ex_update_counts_half:
  assumes "wavelength_bins sim = [14 / 5, 52 / 5, 18]"
  shows "update_counts sim (ex_batch n (1 / 2)) =
         Inr (sim\<lparr>direct_beam := map2 (+) (direct_beam sim) [n, 0],
                  reflected_beam := map2 (+) (reflected_beam sim) [n, 0]\<rparr>)"
  by (simp add: update_counts_def np_histogram_def assms ex_batch_def mask_select_def
      in_bin_def filter_replicate upt_rec[of 0] upt_rec[of 1])

lemma ex_update_counts_high:
  assumes "wavelength_bins sim = [14 / 5, 52 / 5, 18]"
  shows "update_counts sim (ex_batch n (9 / 10)) =
         Inr (sim\<lparr>direct_beam := map2 (+) (direct_beam sim) [0, n],
                  reflected_beam := map2 (+) (reflected_beam sim) [0, 0]\<rparr>)"
  by (simp add: update_counts_def np_histogram_def assms ex_batch_def mask_select_def
      in_bin_def filter_replicate upt_rec[of 0] upt_rec[of 1])

lemma ex_kernel_empty_half:
  assumes "wavelength_bins sim = [14 / 5, 52 / 5, 18]" and "res_kernel sim = []"
  shows "update_res_kernel ex_env sim (ex_batch n (1 / 2)) =
         sim\<lparr>res_kernel := [(0, replicate n (10 / 99)), (1, [])]\<rparr>"
proof -
  have f: "astype_float32 ex_env = (\<lambda>v. v)" by (simp add: ex_env_def)
  show ?thesis
    by (simp add: update_res_kernel_def assms ex_batch_def np_digitize_def kernel_step_def
        mask_select_def filter_replicate upt_rec[of 1] upt_rec[of 2] f)
qed

lemma ex_kernel_half:
  assumes "wavelength_bins sim = [14 / 5, 52 / 5, 18]"
    and "res_kernel sim = [(0, replicate i u), (1, replicate j w)]"
    and "\<not> 500000 < min j i"
  shows "update_res_kernel ex_env sim (ex_batch n (1 / 2)) =
         sim\<lparr>res_kernel := [(0, replicate i u @ replicate n (10 / 99)), (1, replicate j w)]\<rparr>"
proof -
  have f: "astype_float32 ex_env = (\<lambda>v. v)" by (simp add: ex_env_def)
  show ?thesis
    using assms(3)
    by (auto simp add: update_res_kernel_def assms(1,2) ex_batch_def np_digitize_def
        kernel_step_def np_min_def mask_select_def filter_replicate
        upt_rec[of 1] upt_rec[of 2] f)
qed

lemma ex_kernel_high:
  assumes "wavelength_bins sim = [14 / 5, 52 / 5, 18]"
    and "res_kernel sim = [(0, replicate i u), (1, replicate j w)]"
    and "\<not> 500000 < min j i"
  shows "update_res_kernel ex_env sim (ex_batch n (9 / 10)) =
         sim\<lparr>res_kernel := [(0, replicate i u),
                             (1, replicate j w @ replicate n (238349 / 3902535))]\<rparr>"
proof -
  have f: "astype_float32 ex_env = (\<lambda>v. v)" by (simp add: ex_env_def)
  show ?thesis
    using assms(3)
    by (auto simp add: update_res_kernel_def assms(1,2) ex_batch_def np_digitize_def
        kernel_step_def np_min_def mask_select_def filter_replicate
        upt_rec[of 1] upt_rec[of 2] f)
qed

lemma ex_run_1: "run ex_env ex_sim0 2 (1 / 2) = Inr (ex_sim1, 1 / 2)"
proof -
  let ?s = "ex_sim0\<lparr>direct_beam := [2, 0], reflected_beam := [2, 0]\<rparr>"
  have uc: "update_counts ex_sim0 (ex_batch 2 (1 / 2)) = Inr ?s"
    using ex_update_counts_half[OF ex_bins[OF ex_same_configuration(1)], of 2]
    by (simp add: ex_sim0_def)
  have uk: "update_res_kernel ex_env ?s (ex_batch 2 (1 / 2)) = ex_sim1"
    using ex_kernel_empty_half[of ?s 2] by (simp add: ex_sim0_def ex_sim1_def)
  show ?thesis
    by (simp add: run_def ex_sample_batch[OF ex_same_configuration(1)] uc uk)
qed

lemma ex_run_2: "run ex_env ex_sim1 3 (9 / 10) = Inr (ex_sim2, 9 / 10)"
proof -
  let ?s = "ex_sim1\<lparr>direct_beam := [2, 3], reflected_beam := [2, 0]\<rparr>"
  have uc: "update_counts ex_sim1 (ex_batch 3 (9 / 10)) = Inr ?s"
    using ex_update_counts_high[OF ex_bins[OF ex_same_configuration(2)], of 3]
    by (simp add: ex_sim1_def)
  have uk: "update_res_kernel ex_env ?s (ex_batch 3 (9 / 10)) = ex_sim2"
    using ex_kernel_high[of ?s 2 "10 / 99" 0 0 3]
    by (simp add: ex_sim0_def ex_sim1_def ex_sim2_def)
  show ?thesis
    by (simp add: run_def ex_sample_batch[OF ex_same_configuration(2)] uc uk)
qed

lemma ex_runs: "runs ex_env ex_sim0 [(2, 1 / 2), (3, 9 / 10)] = Inr ex_sim2"
  by (simp add: ex_run_1 ex_run_2)

subsection \<open>Conservation of counts\<close>

lemma filter_mask_select_le:
  "length (filter P (mask_select a m)) \<le> length (filter P a)"
proof (induction a arbitrary: m)
  case Nil
  then show ?case by (simp add: mask_select_def)
next
  case (Cons v a)
  show ?case
  proof (cases m)
    case Nil
    then show ?thesis by (simp add: mask_select_def)
  next
    case (Cons c m')
    have "length (filter P (mask_select a m')) \<le> length (filter P a)"
      by (rule Cons.IH)
    then show ?thesis using Cons by (simp add: mask_select_def)
  qed
qed

lemma init_counts_ok:
  "ReflectSimulator_init env m args = Inr sim \<Longrightarrow> counts_ok sim"
  by (auto simp: ReflectSimulator_init_def counts_ok_def Let_def
      split: sum.splits if_splits prod.splits)

lemma update_counts_bins:
  "update_counts sim bt = Inr sim1 \<Longrightarrow> wavelength_bins sim1 = wavelength_bins sim"
  by (auto simp: update_counts_def split: sum.splits)

lemma update_res_kernel_fields:
  "wavelength_bins (update_res_kernel env sim bt) = wavelength_bins sim"
  "direct_beam (update_res_kernel env sim bt) = direct_beam sim"
  "reflected_beam (update_res_kernel env sim bt) = reflected_beam sim"
  by (simp_all add: update_res_kernel_def Let_def)

lemma run_InrD:
  assumes "run env sim n g = Inr (sim2, g1)"
  obtains bt sim1 where "sample_batch env sim n g = Inr (bt, g1)"
    and "update_counts sim bt = Inr sim1"
    and "sim2 = update_res_kernel env sim1 bt"
  using assms by (auto simp: run_def split: sum.splits prod.splits)

lemma run_wavelength_bins:
  "run env sim n g = Inr (sim1, g1) \<Longrightarrow> wavelength_bins sim1 = wavelength_bins sim"
  by (erule run_InrD) (simp add: update_res_kernel_fields update_counts_bins)

lemma update_counts_ok:
  assumes "update_counts sim bt = Inr sim1" and "counts_ok sim"
  shows "counts_ok sim1"
proof -
  let ?N = "length (wavelength_bins sim) - 1"
  let ?a = "jittered_wavelengths bt"
  from assms(1) obtain h hr where
    h: "np_histogram ?a (wavelength_bins sim) = Inr h" and
    hr: "np_histogram (mask_select ?a (accepted bt)) (wavelength_bins sim) = Inr hr" and
    s: "sim1 = sim\<lparr>direct_beam := map2 (+) (direct_beam sim) h,
                    reflected_beam := map2 (+) (reflected_beam sim) hr\<rparr>"
    by (auto simp: update_counts_def split: sum.splits)
  from h have lh: "length h = ?N" and
    hk: "\<And>k. k < ?N \<Longrightarrow> h ! k = length (filter (in_bin (wavelength_bins sim) k) ?a)"
    by (auto simp: np_histogram_def split: if_splits)
  from hr have lhr: "length hr = ?N" and
    hrk: "\<And>k. k < ?N \<Longrightarrow> hr ! k = length (filter (in_bin (wavelength_bins sim) k)
        (mask_select ?a (accepted bt)))"
    by (auto simp: np_histogram_def split: if_splits)
  have le: "hr ! k \<le> h ! k" if "k < ?N" for k
    using that hk hrk filter_mask_select_le by simp
  from assms(2) have ld: "length (direct_beam sim) = ?N"
    and lr: "length (reflected_beam sim) = ?N"
    and inv: "\<And>k. k < ?N \<Longrightarrow> reflected_beam sim ! k \<le> direct_beam sim ! k"
    by (auto simp: counts_ok_def)
  show ?thesis
    unfolding counts_ok_def s
    using lh lhr ld lr inv le by (auto simp: add_mono)
qed

lemma run_counts_ok:
  assumes "run env sim n g = Inr (sim1, g1)" and "counts_ok sim"
  shows "counts_ok sim1"
proof -
  from assms(1) obtain bt s1 where u: "update_counts sim bt = Inr s1"
    and s: "sim1 = update_res_kernel env s1 bt"
    by (rule run_InrD)
  from update_counts_ok[OF u assms(2)] have "counts_ok s1" .
  then show ?thesis by (simp add: s counts_ok_def update_res_kernel_fields)
qed

lemma runs_counts_ok:
  "runs env sim calls = Inr sim1 \<Longrightarrow> counts_ok sim \<Longrightarrow>
   counts_ok sim1 \<and> wavelength_bins sim1 = wavelength_bins sim"
proof (induction calls arbitrary: sim)
  case Nil
  then show ?case by simp
next
  case (Cons c calls)
  obtain n g where c: "c = (n, g)" by (cases c)
  from Cons.prems(1) c obtain sim' g' where
    r: "run env sim n g = Inr (sim', g')" and rs: "runs env sim' calls = Inr sim1"
    by (auto split: sum.splits)
  from run_counts_ok[OF r Cons.prems(2)] have "counts_ok sim'" .
  from Cons.IH[OF rs this] run_wavelength_bins[OF r] show ?case by simp
qed

text \<open>
  Claim C1. After any sequence of \<^verbatim>\<open>run\<close> calls on a constructed simulator, with any
  sample counts, generator states and configuration, the reflected-beam count of every
  bin is at most the direct-beam count of that bin: each call adds to the reflected
  tally the histogram of a sub-array of what it adds to the direct tally.
\<close>

theorem reflected_le_direct:
  assumes "ReflectSimulator_init env m args = Inr sim0"
    and "runs env sim0 calls = Inr sim"
    and "i < length (wavelength_bins sim) - 1"
  shows "reflected_beam sim ! i \<le> direct_beam sim ! i"
  using runs_counts_ok[OF assms(2) init_counts_ok[OF assms(1)]] assms(3)
  by (simp add: counts_ok_def)

theorem reflected_le_direct_witness:
  "ReflectSimulator_init ex_env ex_model ex_args = Inr ex_sim0 \<and>
   runs ex_env ex_sim0 [(2, 1 / 2), (3, 9 / 10)] = Inr ex_sim2 \<and>
   1 < length (wavelength_bins ex_sim2) - 1 \<and>
   reflected_beam ex_sim2 ! 1 \<le> direct_beam ex_sim2 ! 1"
proof -
  have b: "1 < length (wavelength_bins ex_sim2) - 1"
    by (simp add: ex_sim2_def ex_sim0_def)
  from reflected_le_direct[OF ex_init ex_runs b] ex_init ex_runs b
  show ?thesis by simp
qed

subsection \<open>The cap on the resolution kernel\<close>

lemma np_min_gt:
  assumes "ns \<noteq> []"
  shows "c < np_min ns \<longleftrightarrow> (\<forall>n \<in> set ns. c < n)"
proof -
  from assms obtain v vs where ns: "ns = v # vs" by (cases ns) auto
  have "Min (set (v # vs)) = fold min vs v" by (rule Min.set_eq_fold)
  then have "np_min ns = Min (set ns)"
    by (simp add: np_min_def ns)
  then show ?thesis using assms by simp
qed

lemma update_counts_res_kernel:
  "update_counts sim bt = Inr sim1 \<Longrightarrow> res_kernel sim1 = res_kernel sim"
  by (auto simp: update_counts_def split: sum.splits)

lemma update_res_kernel_saturated:
  assumes "res_kernel sim \<noteq> []"
    and "\<forall>kv \<in> set (res_kernel sim). 500000 < length (snd kv)"
  shows "update_res_kernel env sim bt = sim"
proof -
  have "500000 < np_min (map (\<lambda>kv. length (snd kv)) (res_kernel sim))"
    using assms by (simp add: np_min_gt)
  with assms(1) show ?thesis by (simp add: update_res_kernel_def)
qed

lemma run_saturated:
  assumes "res_kernel sim \<noteq> []"
    and "\<forall>kv \<in> set (res_kernel sim). 500000 < length (snd kv)"
    and "run env sim n g = Inr (sim1, g1)"
  shows "res_kernel sim1 = res_kernel sim"
proof -
  from assms(3) obtain bt s1 where u: "update_counts sim bt = Inr s1"
    and s: "sim1 = update_res_kernel env s1 bt"
    by (rule run_InrD)
  from update_counts_res_kernel[OF u] have k: "res_kernel s1 = res_kernel sim" .
  with assms(1,2) have "update_res_kernel env s1 bt = s1"
    by (intro update_res_kernel_saturated) simp_all
  with s k show ?thesis by simp
qed

lemma ex_run_big1: "run ex_env ex_sim0 500001 (1 / 2) = Inr (ex_big1, 1 / 2)"
proof -
  let ?s = "ex_sim0\<lparr>direct_beam := [500001, 0], reflected_beam := [500001, 0]\<rparr>"
  have uc: "update_counts ex_sim0 (ex_batch 500001 (1 / 2)) = Inr ?s"
    using ex_update_counts_half[OF ex_bins[OF ex_same_configuration(1)], of 500001]
    by (simp add: ex_sim0_def)
  have uk: "update_res_kernel ex_env ?s (ex_batch 500001 (1 / 2)) = ex_big1"
    using ex_kernel_empty_half[of ?s 500001] by (simp add: ex_sim0_def ex_big1_def)
  show ?thesis
    by (simp add: run_def ex_sample_batch[OF ex_same_configuration(1)] uc uk)
qed

lemma ex_run_big2: "run ex_env ex_big1 2 (1 / 2) = Inr (ex_big2, 1 / 2)"
proof -
  let ?s = "ex_big1\<lparr>direct_beam := [500003, 0], reflected_beam := [500003, 0]\<rparr>"
  have uc: "update_counts ex_big1 (ex_batch 2 (1 / 2)) = Inr ?s"
    using ex_update_counts_half[OF ex_bins[OF ex_same_configuration(4)], of 2]
    by (simp add: ex_big1_def)
  have r: "replicate 500001 (10 / 99 :: real) @ replicate 2 (10 / 99) =
           replicate 500003 (10 / 99)"
    by (simp add: replicate_add[symmetric] del: replicate.simps)
  have "update_res_kernel ex_env ?s (ex_batch 2 (1 / 2)) =
        ?s\<lparr>res_kernel := [(0, replicate 500001 (10 / 99) @ replicate 2 (10 / 99)),
                           (1, replicate 0 0)]\<rparr>"
    by (rule ex_kernel_half) (simp_all add: ex_big1_def ex_sim0_def)
  then have uk: "update_res_kernel ex_env ?s (ex_batch 2 (1 / 2)) = ex_big2"
    unfolding r by (simp add: ex_big1_def ex_big2_def ex_sim0_def)
  show ?thesis
    by (simp add: run_def ex_sample_batch[OF ex_same_configuration(4)] uc uk)
qed

lemma ex_run_full: "run ex_env ex_big1 500001 (9 / 10) = Inr (ex_full, 9 / 10)"
proof -
  let ?s = "ex_big1\<lparr>direct_beam := [500001, 500001], reflected_beam := [500001, 0]\<rparr>"
  have uc: "update_counts ex_big1 (ex_batch 500001 (9 / 10)) = Inr ?s"
    using ex_update_counts_high[OF ex_bins[OF ex_same_configuration(4)], of 500001]
    by (simp add: ex_big1_def)
  have "update_res_kernel ex_env ?s (ex_batch 500001 (9 / 10)) =
        ?s\<lparr>res_kernel := [(0, replicate 500001 (10 / 99)),
                           (1, replicate 0 0 @ replicate 500001 (238349 / 3902535))]\<rparr>"
    by (rule ex_kernel_high) (simp_all add: ex_big1_def ex_sim0_def)
  then have uk: "update_res_kernel ex_env ?s (ex_batch 500001 (9 / 10)) = ex_full"
    by (simp add: ex_big1_def ex_full_def ex_sim0_def)
  show ?thesis
    by (simp add: run_def ex_sample_batch[OF ex_same_configuration(4)] uc uk)
qed

lemma ex_full_saturated:
  "res_kernel ex_full \<noteq> []"
  "\<forall>kv \<in> set (res_kernel ex_full). 500000 < length (snd kv)"
  by (simp_all add: ex_full_def)

lemma ex_run_saturated_half:
  assumes "same_configuration sim ex_sim0" and "res_kernel sim \<noteq> []"
    and "\<forall>kv \<in> set (res_kernel sim). 500000 < length (snd kv)"
  shows "run ex_env sim n (1 / 2) =
         Inr (sim\<lparr>direct_beam := map2 (+) (direct_beam sim) [n, 0],
                  reflected_beam := map2 (+) (reflected_beam sim) [n, 0]\<rparr>, 1 / 2)"
proof -
  let ?s = "sim\<lparr>direct_beam := map2 (+) (direct_beam sim) [n, 0],
                 reflected_beam := map2 (+) (reflected_beam sim) [n, 0]\<rparr>"
  have uc: "update_counts sim (ex_batch n (1 / 2)) = Inr ?s"
    by (rule ex_update_counts_half[OF ex_bins[OF assms(1)]])
  have uk: "update_res_kernel ex_env ?s (ex_batch n (1 / 2)) = ?s"
    using assms(2,3) by (intro update_res_kernel_saturated) simp_all
  show ?thesis
    by (simp add: run_def ex_sample_batch[OF assms(1)] uc uk)
qed

lemma ex_run_full1: "run ex_env ex_full 2 (1 / 2) = Inr (ex_full1, 1 / 2)"
  using ex_run_saturated_half[OF ex_same_configuration(6) ex_full_saturated, of 2]
  by (simp add: ex_full1_def) (simp add: ex_full_def)

lemma ex_run_full2: "run ex_env ex_full1 2 (1 / 2) = Inr (ex_full2, 1 / 2)"
proof -
  have c: "same_configuration ex_full1 ex_sim0"
    by (simp add: same_configuration_def ex_full1_def ex_full_def)
  have k: "res_kernel ex_full1 \<noteq> []"
    "\<forall>kv \<in> set (res_kernel ex_full1). 500000 < length (snd kv)"
    by (simp_all add: ex_full1_def ex_full_def)
  from ex_run_saturated_half[OF c k, of 2] show ?thesis
    by (simp add: ex_full2_def) (simp add: ex_full1_def ex_full_def)
qed

text \<open>
  Claim C2, as stated, fails: the cap is tested on the shortest entry of the
  dictionary, not on each bin. In the example the first bin holds 500001 samples after
  the first call while the second bin holds none, and the next call appends its two
  samples to the first bin all the same.
\<close>

theorem cap_is_not_per_bin:
  "ReflectSimulator_init ex_env ex_model ex_args = Inr ex_sim0 \<and>
   run ex_env ex_sim0 500001 (1 / 2) = Inr (ex_big1, 1 / 2) \<and>
   length (the (map_of (res_kernel ex_big1) 0)) = 500001 \<and>
   run ex_env ex_big1 2 (1 / 2) = Inr (ex_big2, 1 / 2) \<and>
   length (the (map_of (res_kernel ex_big2) 0)) = 500003"
proof -
  have "length (the (map_of (res_kernel ex_big1) 0)) = 500001"
    by (simp add: ex_big1_def)
  moreover have "length (the (map_of (res_kernel ex_big2) 0)) = 500003"
    by (simp add: ex_big2_def)
  ultimately show ?thesis
    using ex_init ex_run_big1 ex_run_big2 by blast
qed

lemma cap_reached_iff:
  "cap_reached sim \<longleftrightarrow>
     res_kernel sim \<noteq> [] \<and> (\<forall>kv \<in> set (res_kernel sim). 500000 < length (snd kv))"
proof (cases "res_kernel sim = []")
  case True
  then show ?thesis by (simp add: cap_reached_def)
next
  case False
  then have "map (\<lambda>kv. length (snd kv)) (res_kernel sim) \<noteq> []" by simp
  from np_min_gt[OF this, of 500000] False show ?thesis
    by (simp add: cap_reached_def)
qed

lemma update_res_kernel_cases:
  "cap_reached sim \<Longrightarrow> update_res_kernel env sim bt = sim"
  "\<not> cap_reached sim \<Longrightarrow>
     res_kernel (update_res_kernel env sim bt) =
       fold (kernel_step env (batch_q bt)
               (map (np_digitize (wavelength_bins sim)) (jittered_wavelengths bt)))
            [1..<length (wavelength_bins sim)] (res_kernel sim)"
  by (auto simp: update_res_kernel_def cap_reached_def Let_def)

lemma map_of_kernel_step:
  "map_of (kernel_step env qs bl i kern) =
     (map_of kern)(i - 1 \<mapsto>
        map (astype_float32 env)
          (q_samples_so_far kern (i - 1) @ mask_select qs (map (\<lambda>l. l = i) bl)))"
  by (simp add: kernel_step_def q_samples_so_far_def Let_def update_conv')

lemma map_of_fold_kernel_step:
  assumes "distinct is" and "0 \<notin> set is"
  shows "map_of (fold (kernel_step env qs bl) is kern) k =
         (if Suc k \<in> set is
          then Some (map (astype_float32 env)
                 (q_samples_so_far kern k @ mask_select qs (map (\<lambda>l. l = Suc k) bl)))
          else map_of kern k)"
  using assms
proof (induction "is" arbitrary: kern)
  case Nil
  then show ?case by simp
next
  case (Cons i rest)
  let ?kern = "kernel_step env qs bl i kern"
  from Cons.prems have i: "0 < i" "i \<notin> set rest" and r: "distinct rest" "0 \<notin> set rest"
    by auto
  have IH: "map_of (fold (kernel_step env qs bl) rest ?kern) k =
         (if Suc k \<in> set rest
          then Some (map (astype_float32 env)
                 (q_samples_so_far ?kern k @ mask_select qs (map (\<lambda>l. l = Suc k) bl)))
          else map_of ?kern k)"
    by (rule Cons.IH[OF r])
  show ?case
  proof (cases "Suc k \<in> set rest")
    case True
    with i have "k \<noteq> i - 1" by auto
    then have "q_samples_so_far ?kern k = q_samples_so_far kern k"
      by (simp add: q_samples_so_far_def map_of_kernel_step)
    with True IH show ?thesis by simp
  next
    case False
    show ?thesis
    proof (cases "Suc k = i")
      case True
      then have "i - 1 = k" by simp
      with False IH True show ?thesis by (simp add: map_of_kernel_step)
    next
      case neq: False
      with i have "k \<noteq> i - 1" by auto
      with False IH neq show ?thesis by (simp add: map_of_kernel_step)
    qed
  qed
qed

lemma update_res_kernel_entry:
  assumes "\<not> cap_reached sim" and "k < length (wavelength_bins sim) - 1"
  shows "map_of (res_kernel (update_res_kernel env sim bt)) k =
         Some (map (astype_float32 env)
           (q_samples_so_far (res_kernel sim) k @ q_for_bin (wavelength_bins sim) bt k))"
proof -
  let ?N = "length (wavelength_bins sim)"
  let ?bl = "map (np_digitize (wavelength_bins sim)) (jittered_wavelengths bt)"
  let ?new = "Some (map (astype_float32 env)
           (q_samples_so_far (res_kernel sim) k @
            mask_select (batch_q bt) (map (\<lambda>l. l = Suc k) ?bl)))"
  have m: "Suc k \<in> set [1..<?N]" using assms(2) by auto
  have "map_of (fold (kernel_step env (batch_q bt) ?bl) [1..<?N] (res_kernel sim)) k =
        (if Suc k \<in> set [1..<?N] then ?new else map_of (res_kernel sim) k)"
    by (rule map_of_fold_kernel_step) simp_all
  with m have "map_of (fold (kernel_step env (batch_q bt) ?bl) [1..<?N] (res_kernel sim)) k =
        ?new"
    by (simp only: if_True)
  then show ?thesis
    unfolding update_res_kernel_cases(2)[OF assms(1)] q_for_bin_def .
qed

lemma ex_run_big3: "run ex_env ex_big1 3 (9 / 10) = Inr (ex_big3, 9 / 10)"
proof -
  let ?s = "ex_big1\<lparr>direct_beam := [500001, 3], reflected_beam := [500001, 0]\<rparr>"
  have uc: "update_counts ex_big1 (ex_batch 3 (9 / 10)) = Inr ?s"
    using ex_update_counts_high[OF ex_bins[OF ex_same_configuration(4)], of 3]
    by (simp add: ex_big1_def)
  have "update_res_kernel ex_env ?s (ex_batch 3 (9 / 10)) =
        ?s\<lparr>res_kernel := [(0, replicate 500001 (10 / 99)),
                           (1, replicate 0 0 @ replicate 3 (238349 / 3902535))]\<rparr>"
    by (rule ex_kernel_high) (simp_all add: ex_big1_def ex_sim0_def)
  then have uk: "update_res_kernel ex_env ?s (ex_batch 3 (9 / 10)) = ex_big3"
    by (simp add: ex_big1_def ex_big3_def ex_sim0_def)
  show ?thesis
    by (simp add: run_def ex_sample_batch[OF ex_same_configuration(4)] uc uk)
qed

lemma ex_big3_configuration: "same_configuration ex_big3 ex_sim0"
  by (simp add: same_configuration_def ex_big3_def)

lemma ex_run_big4: "run ex_env ex_big3 2 (1 / 2) = Inr (ex_big4, 1 / 2)"
proof -
  let ?s = "ex_big3\<lparr>direct_beam := [500003, 3], reflected_beam := [500003, 0]\<rparr>"
  have uc: "update_counts ex_big3 (ex_batch 2 (1 / 2)) = Inr ?s"
    using ex_update_counts_half[OF ex_bins[OF ex_big3_configuration], of 2]
    by (simp add: ex_big3_def)
  have r: "replicate 500001 (10 / 99 :: real) @ replicate 2 (10 / 99) =
           replicate 500003 (10 / 99)"
    by (simp add: replicate_add[symmetric] del: replicate.simps)
  have "update_res_kernel ex_env ?s (ex_batch 2 (1 / 2)) =
        ?s\<lparr>res_kernel := [(0, replicate 500001 (10 / 99) @ replicate 2 (10 / 99)),
                           (1, replicate 3 (238349 / 3902535))]\<rparr>"
    by (rule ex_kernel_half) (simp_all add: ex_big3_def ex_sim0_def)
  then have uk: "update_res_kernel ex_env ?s (ex_batch 2 (1 / 2)) = ex_big4"
    unfolding r by (simp add: ex_big3_def ex_big4_def ex_sim0_def)
  show ?thesis
    by (simp add: run_def ex_sample_batch[OF ex_big3_configuration] uc uk)
qed

text \<open>
  Claim C2, amended. The cap is reached when the dictionary is non-empty and every
  bin holds more than 500000 samples. From then on no \<^verbatim>\<open>run\<close> call changes the
  resolution kernel, whatever its sample count and generator state: after any sequence
  of calls the kernel is as it was, and a further call leaves it so. As long as the cap
  is not reached, that is as long as the dictionary is empty or some bin holds 500000
  samples or fewer, a call appends to every bin, also to one that holds more than
  500000 samples already, the momentum transfers of its samples whose jittered
  wavelength is digitized to that bin, and stores the bin in single precision. Every
  call, before or after the cap, adds its two histograms to the direct-beam and
  reflected-beam tallies.
\<close>

theorem res_kernel_cap_rule:
  assumes "runs env sim calls = Inr sim1"
    and "run env sim1 n g = Inr (sim2, g2)"
  shows "(cap_reached sim \<longleftrightarrow>
            res_kernel sim \<noteq> [] \<and> (\<forall>kv \<in> set (res_kernel sim). 500000 < length (snd kv))) \<and>
         (\<exists>bt h hr.
            sample_batch env sim1 n g = Inr (bt, g2) \<and>
            np_histogram (jittered_wavelengths bt) (wavelength_bins sim1) = Inr h \<and>
            np_histogram (mask_select (jittered_wavelengths bt) (accepted bt))
              (wavelength_bins sim1) = Inr hr \<and>
            direct_beam sim2 = map2 (+) (direct_beam sim1) h \<and>
            reflected_beam sim2 = map2 (+) (reflected_beam sim1) hr \<and>
            (cap_reached sim \<longrightarrow>
               res_kernel sim1 = res_kernel sim \<and> res_kernel sim2 = res_kernel sim) \<and>
            (\<not> cap_reached sim1 \<longrightarrow>
               (\<forall>k < length (wavelength_bins sim1) - 1.
                  map_of (res_kernel sim2) k =
                    Some (map (astype_float32 env)
                      (q_samples_so_far (res_kernel sim1) k @
                       q_for_bin (wavelength_bins sim1) bt k)))))"
proof -
  have k1: "res_kernel sim1 = res_kernel sim" if "cap_reached sim"
    using that assms(1)
  proof (induction calls arbitrary: sim)
    case Nil
    then show ?case by simp
  next
    case (Cons c calls)
    obtain m g0 where c: "c = (m, g0)" by (cases c)
    from Cons.prems(2) c obtain s g1 where
      r: "run env sim m g0 = Inr (s, g1)" and rs: "runs env s calls = Inr sim1"
      by (auto split: sum.splits)
    from Cons.prems(1) have sat: "res_kernel sim \<noteq> []"
      "\<forall>kv \<in> set (res_kernel sim). 500000 < length (snd kv)"
      by (simp_all add: cap_reached_iff)
    from run_saturated[OF sat r] have k: "res_kernel s = res_kernel sim" .
    with Cons.prems(1) have "cap_reached s" by (simp add: cap_reached_def)
    from Cons.IH[OF this rs] k show ?case by simp
  qed
  from assms(2) obtain bt s where sb: "sample_batch env sim1 n g = Inr (bt, g2)"
    and uc: "update_counts sim1 bt = Inr s"
    and s2: "sim2 = update_res_kernel env s bt"
    by (rule run_InrD)
  from uc obtain h hr where
    h: "np_histogram (jittered_wavelengths bt) (wavelength_bins sim1) = Inr h"
    and hr: "np_histogram (mask_select (jittered_wavelengths bt) (accepted bt))
              (wavelength_bins sim1) = Inr hr"
    and s: "s = sim1\<lparr>direct_beam := map2 (+) (direct_beam sim1) h,
                     reflected_beam := map2 (+) (reflected_beam sim1) hr\<rparr>"
    by (auto simp: update_counts_def split: sum.splits)
  from s s2 have d: "direct_beam sim2 = map2 (+) (direct_beam sim1) h"
    "reflected_beam sim2 = map2 (+) (reflected_beam sim1) hr"
    by (simp_all add: update_res_kernel_fields)
  from s have sk: "res_kernel s = res_kernel sim1" "wavelength_bins s = wavelength_bins sim1"
    "cap_reached s \<longleftrightarrow> cap_reached sim1"
    by (simp_all add: cap_reached_def)
  have frozen: "res_kernel sim1 = res_kernel sim \<and> res_kernel sim2 = res_kernel sim"
    if c: "cap_reached sim"
  proof -
    from k1[OF c] have e: "res_kernel sim1 = res_kernel sim" .
    with c have "cap_reached sim1" by (simp add: cap_reached_def)
    with sk(3) have "update_res_kernel env s bt = s" by (simp add: update_res_kernel_cases(1))
    with s2 sk(1) e show ?thesis by simp
  qed
  have grows: "map_of (res_kernel sim2) k =
        Some (map (astype_float32 env)
          (q_samples_so_far (res_kernel sim1) k @ q_for_bin (wavelength_bins sim1) bt k))"
    if "\<not> cap_reached sim1" and "k < length (wavelength_bins sim1) - 1" for k
    using update_res_kernel_entry[of s k env bt] that sk s2 by simp
  from sb h hr d frozen grows cap_reached_iff[of sim] show ?thesis by blast
qed

theorem res_kernel_cap_rule_witness:
  "runs ex_env ex_sim0 [(500001, 1 / 2), (500001, 9 / 10)] = Inr ex_full \<and>
   map (\<lambda>kv. length (snd kv)) (res_kernel ex_full) = [500001, 500001] \<and>
   runs ex_env ex_full [(2, 1 / 2)] = Inr ex_full1 \<and>
   run ex_env ex_full1 2 (1 / 2) = Inr (ex_full2, 1 / 2) \<and>
   res_kernel ex_full1 = res_kernel ex_full \<and> res_kernel ex_full2 = res_kernel ex_full \<and>
   direct_beam ex_full1 = [500003, 500001] \<and> direct_beam ex_full2 = [500005, 500001] \<and>
   runs ex_env ex_big1 [(3, 9 / 10)] = Inr ex_big3 \<and>
   map (\<lambda>kv. length (snd kv)) (res_kernel ex_big3) = [500001, 3] \<and>
   run ex_env ex_big3 2 (1 / 2) = Inr (ex_big4, 1 / 2) \<and>
   map (\<lambda>kv. length (snd kv)) (res_kernel ex_big4) = [500003, 3] \<and>
   (\<exists>bt. sample_batch ex_env ex_big3 2 (1 / 2) = Inr (bt, 1 / 2) \<and>
      map_of (res_kernel ex_big4) 0 =
        Some (map (astype_float32 ex_env)
          (q_samples_so_far (res_kernel ex_big3) 0 @
           q_for_bin (wavelength_bins ex_big3) bt 0)))"
proof -
  have r: "runs ex_env ex_full [(2, 1 / 2)] = Inr ex_full1"
    by (simp add: ex_run_full1)
  have d: "direct_beam ex_full1 = [500003, 500001]" "direct_beam ex_full2 = [500005, 500001]"
    by (simp_all add: ex_full1_def ex_full2_def)
  have a: "runs ex_env ex_sim0 [(500001, 1 / 2), (500001, 9 / 10)] = Inr ex_full"
    by (simp add: ex_run_big1 ex_run_full)
  have l: "map (\<lambda>kv. length (snd kv)) (res_kernel ex_full) = [500001, 500001]"
    "map (\<lambda>kv. length (snd kv)) (res_kernel ex_big3) = [500001, 3]"
    "map (\<lambda>kv. length (snd kv)) (res_kernel ex_big4) = [500003, 3]"
    by (simp_all add: ex_full_def ex_big3_def ex_big4_def)
  have c: "cap_reached ex_full"
    using ex_full_saturated by (simp add: cap_reached_iff)
  from res_kernel_cap_rule[OF r ex_run_full2] c
  have frozen: "res_kernel ex_full1 = res_kernel ex_full \<and>
                res_kernel ex_full2 = res_kernel ex_full"
    by blast
  have r3: "runs ex_env ex_big1 [(3, 9 / 10)] = Inr ex_big3"
    by (simp add: ex_run_big3)
  have n3: "\<not> cap_reached ex_big3"
    by (simp add: cap_reached_iff ex_big3_def)
  have b: "0 < length (wavelength_bins ex_big3) - 1"
    by (simp add: ex_big3_def ex_sim0_def)
  from res_kernel_cap_rule[OF r3 ex_run_big4] n3 b
  have grows: "\<exists>bt. sample_batch ex_env ex_big3 2 (1 / 2) = Inr (bt, 1 / 2) \<and>
      map_of (res_kernel ex_big4) 0 =
        Some (map (astype_float32 ex_env)
          (q_samples_so_far (res_kernel ex_big3) 0 @
           q_for_bin (wavelength_bins ex_big3) bt 0))"
    by blast
  from a l r ex_run_full2 frozen d r3 ex_run_big4 grows show ?thesis by blast
qed

subsection \<open>The sampled neutrons of a call\<close>

lemma rvs_length:
  assumes "rvs env d n g = Inr (w, g1)"
  shows "length w = n"
proof (cases d)
  case (Spectrum sd)
  obtain u g2 where u: "draws (rng_uniform env 0 1) n g = (u, g2)"
    by (cases "draws (rng_uniform env 0 1) n g")
  from length_draws[of "rng_uniform env 0 1" n g] u have "length u = n" by simp
  with assms Spectrum u show ?thesis
    by (auto simp: rvs_def private_ppf_def np_interp_def split: sum.splits if_splits)
next
  case (Uniform loc scale)
  with assms length_draws[of "frozen_rvs env d" n g] show ?thesis
    by (auto simp: rvs_def split: if_splits)
next
  case (Norm scale)
  with assms length_draws[of "frozen_rvs env d" n g] show ?thesis
    by (auto simp: rvs_def split: if_splits)
next
  case (Trapz c e loc scale)
  with assms length_draws[of "frozen_rvs env d" n g] show ?thesis
    by (auto simp: rvs_def split: if_splits)
qed

lemma sample_batch_Inr_ex:
  assumes "sample_batch env sim n g = Inr (bt, g4)"
  shows "\<exists>offsets g1 g2 g3.
    rvs env (angular_dist sim) n g = Inr (offsets, g1) \<and>
    rvs env (spectrum_dist sim) n g1 = Inr (wavelengths bt, g2) \<and>
    draws (rng_uniform env 0 1) n g2 = (criterion bt, g3) \<and>
    draws (if force_gaussian sim then rng_standard_normal env
           else rng_uniform env (- 0.5) 0.5) n g3 = (noise bt, g4) \<and>
    angles bt = map (\<lambda>v. v + angle sim) offsets \<and>
    batch_q bt = map2 (general_q env) (angles bt) (wavelengths bt) \<and>
    batch_r bt = map (model_call (model sim)) (batch_q bt) \<and>
    accepted bt = map2 (\<lambda>c r. c < r) (criterion bt) (batch_r bt) \<and>
    jittered_wavelengths bt = map2 (jitter sim) (wavelengths bt) (noise bt)"
proof (cases "force_gaussian sim")
  case True
  with assms show ?thesis
    by (auto simp: sample_batch_def Let_def split: sum.splits prod.splits)
next
  case False
  with assms show ?thesis
    by (auto simp: sample_batch_def Let_def split: sum.splits prod.splits)
qed

lemma sample_batch_InrD:
  assumes "sample_batch env sim n g = Inr (bt, g4)"
  obtains offsets g1 g2 g3 where
    "rvs env (angular_dist sim) n g = Inr (offsets, g1)"
    and "rvs env (spectrum_dist sim) n g1 = Inr (wavelengths bt, g2)"
    and "draws (rng_uniform env 0 1) n g2 = (criterion bt, g3)"
    and "draws (if force_gaussian sim then rng_standard_normal env
                else rng_uniform env (- 0.5) 0.5) n g3 = (noise bt, g4)"
    and "angles bt = map (\<lambda>v. v + angle sim) offsets"
    and "batch_q bt = map2 (general_q env) (angles bt) (wavelengths bt)"
    and "batch_r bt = map (model_call (model sim)) (batch_q bt)"
    and "accepted bt = map2 (\<lambda>c r. c < r) (criterion bt) (batch_r bt)"
    and "jittered_wavelengths bt = map2 (jitter sim) (wavelengths bt) (noise bt)"
  using sample_batch_Inr_ex[OF assms] by blast

lemma sample_batch_lengths:
  assumes "sample_batch env sim n g = Inr (bt, g4)"
  shows "length (wavelengths bt) = n" and "length (noise bt) = n"
    and "length (criterion bt) = n" and "length (batch_q bt) = n"
    and "length (batch_r bt) = n" and "length (accepted bt) = n"
    and "length (jittered_wavelengths bt) = n"
proof -
  from assms obtain offsets g1 g2 g3 where
    a: "rvs env (angular_dist sim) n g = Inr (offsets, g1)"
    and w: "rvs env (spectrum_dist sim) n g1 = Inr (wavelengths bt, g2)"
    and c: "draws (rng_uniform env 0 1) n g2 = (criterion bt, g3)"
    and z: "draws (if force_gaussian sim then rng_standard_normal env
                else rng_uniform env (- 0.5) 0.5) n g3 = (noise bt, g4)"
    and ang: "angles bt = map (\<lambda>v. v + angle sim) offsets"
    and q: "batch_q bt = map2 (general_q env) (angles bt) (wavelengths bt)"
    and r: "batch_r bt = map (model_call (model sim)) (batch_q bt)"
    and acc: "accepted bt = map2 (\<lambda>c r. c < r) (criterion bt) (batch_r bt)"
    and j: "jittered_wavelengths bt = map2 (jitter sim) (wavelengths bt) (noise bt)"
    by (rule sample_batch_InrD)
  from rvs_length[OF a] have la: "length offsets = n" .
  from rvs_length[OF w] show lw: "length (wavelengths bt) = n" .
  from length_draws[of "rng_uniform env 0 1" n g2] c show lc: "length (criterion bt) = n"
    by simp
  from length_draws[of _ n g3] z show lz: "length (noise bt) = n"
    by (metis fst_conv)
  from q ang la lw show lq: "length (batch_q bt) = n" by simp
  with r show lr: "length (batch_r bt) = n" by simp
  with acc lc show "length (accepted bt) = n" by simp
  from j lw lz show "length (jittered_wavelengths bt) = n" by simp
qed

text \<open>
  Claim C6. In each \<^verbatim>\<open>run\<close> call with \<open>n\<close> samples the values that are histogrammed
  are the jittered wavelengths: sample \<open>i\<close> has the sampled wavelength \<open>w\<close> replaced by
  \<open>w * (1 + dlambda / 2.3548 * g)\<close> with \<open>g\<close> the \<open>i\<close>-th of \<open>n\<close> standard-normal draws
  when \<^verbatim>\<open>force_gaussian\<close> is set, and by \<open>w * (1 + dlambda / 0.68 * u)\<close> with \<open>u\<close> the
  \<open>i\<close>-th of \<open>n\<close> uniform draws on \<open>[-0.5, 0.5]\<close> otherwise, where \<open>dlambda\<close> is the
  stored wavelength-resolution fraction.
\<close>

theorem wavelength_jitter:
  assumes "run env sim n g = Inr (sim1, g1)" and "i < n"
  shows "\<exists>bt g3 h.
      sample_batch env sim n g = Inr (bt, g1) \<and>
      np_histogram (jittered_wavelengths bt) (wavelength_bins sim) = Inr h \<and>
      direct_beam sim1 = map2 (+) (direct_beam sim) h \<and>
      length (wavelengths bt) = n \<and> length (jittered_wavelengths bt) = n \<and>
      noise bt = fst (draws (if force_gaussian sim then rng_standard_normal env
                             else rng_uniform env (- 0.5) 0.5) n g3) \<and>
      jittered_wavelengths bt ! i =
        (if force_gaussian sim
         then wavelengths bt ! i * (1 + dlambda sim / 2.3548 * noise bt ! i)
         else wavelengths bt ! i * (1 + dlambda sim / 0.68 * noise bt ! i))"
proof -
  from assms(1) obtain bt s1 where sb: "sample_batch env sim n g = Inr (bt, g1)"
    and uc: "update_counts sim bt = Inr s1"
    and s: "sim1 = update_res_kernel env s1 bt"
    by (rule run_InrD)
  from uc obtain h where
    h: "np_histogram (jittered_wavelengths bt) (wavelength_bins sim) = Inr h"
    and d: "direct_beam s1 = map2 (+) (direct_beam sim) h"
    by (auto simp: update_counts_def split: sum.splits)
  from sb obtain offsets g0 g2 g3 where
    z: "draws (if force_gaussian sim then rng_standard_normal env
                else rng_uniform env (- 0.5) 0.5) n g3 = (noise bt, g1)"
    and j: "jittered_wavelengths bt = map2 (jitter sim) (wavelengths bt) (noise bt)"
    by (rule sample_batch_InrD)
  note l = sample_batch_lengths[OF sb]
  from j l(1,2) assms(2) have
    "jittered_wavelengths bt ! i = jitter sim (wavelengths bt ! i) (noise bt ! i)"
    by simp
  then have ji: "jittered_wavelengths bt ! i =
        (if force_gaussian sim
         then wavelengths bt ! i * (1 + dlambda sim / 2.3548 * noise bt ! i)
         else wavelengths bt ! i * (1 + dlambda sim / 0.68 * noise bt ! i))"
    by (simp add: jitter_def)
  from z have nz: "noise bt = fst (draws (if force_gaussian sim then rng_standard_normal env
                             else rng_uniform env (- 0.5) 0.5) n g3)" by simp
  from d s have d1: "direct_beam sim1 = map2 (+) (direct_beam sim) h"
    by (simp add: update_res_kernel_fields)
  from sb h d1 l(1,7) nz ji show ?thesis by blast
qed

theorem wavelength_jitter_witness:
  "run ex_env ex_sim0 2 (1 / 2) = Inr (ex_sim1, 1 / 2) \<and> (0 :: nat) < 2 \<and>
   (\<exists>bt g3 h.
      sample_batch ex_env ex_sim0 2 (1 / 2) = Inr (bt, 1 / 2) \<and>
      np_histogram (jittered_wavelengths bt) (wavelength_bins ex_sim0) = Inr h \<and>
      direct_beam ex_sim1 = map2 (+) (direct_beam ex_sim0) h \<and>
      length (wavelengths bt) = 2 \<and> length (jittered_wavelengths bt) = 2 \<and>
      noise bt = fst (draws (if force_gaussian ex_sim0 then rng_standard_normal ex_env
                             else rng_uniform ex_env (- 0.5) 0.5) 2 g3) \<and>
      jittered_wavelengths bt ! 0 =
        (if force_gaussian ex_sim0
         then wavelengths bt ! 0 * (1 + dlambda ex_sim0 / 2.3548 * noise bt ! 0)
         else wavelengths bt ! 0 * (1 + dlambda ex_sim0 / 0.68 * noise bt ! 0)))"
proof -
  have l: "(0 :: nat) < 2" by simp
  from wavelength_jitter[OF ex_run_1 l] ex_run_1 l show ?thesis by blast
qed

lemma length_filter_less_upt:
  "length (filter (\<lambda>k. k < c) [0..<N]) = min c N"
  by (induction N) auto

lemma acceptance_frequency_eq:
  assumes "0 < N" and "0 \<le> r" and "r \<le> 1"
  shows "acceptance_frequency N r = real (nat \<lceil>r * real N\<rceil>) / real N"
proof -
  let ?c = "nat \<lceil>r * real N\<rceil>"
  have iff: "real k / real N < r \<longleftrightarrow> k < ?c" for k
  proof -
    have "real k / real N < r \<longleftrightarrow> real k < r * real N"
      using assms(1) by (simp add: pos_divide_less_eq)
    also have "\<dots> \<longleftrightarrow> int k < \<lceil>r * real N\<rceil>"
      by (simp add: less_ceiling_iff)
    also have "\<dots> \<longleftrightarrow> k < ?c" by linarith
    finally show ?thesis .
  qed
  have "r * real N \<le> real N" using assms by (simp add: mult_le_cancel_right1)
  then have "\<lceil>r * real N\<rceil> \<le> int N" by (simp add: ceiling_le_iff)
  then have cN: "?c \<le> N" by linarith
  have "length (filter (\<lambda>k. real k / real N < r) [0..<N]) = min ?c N"
    by (simp only: iff length_filter_less_upt)
  with cN show ?thesis by (simp add: acceptance_frequency_def)
qed

lemma acceptance_frequency_bounds:
  assumes "0 < N" and "0 \<le> r" and "r \<le> 1"
  shows "r \<le> acceptance_frequency N r" and "acceptance_frequency N r < r + 1 / real N"
proof -
  let ?c = "nat \<lceil>r * real N\<rceil>"
  have "0 \<le> r * real N" using assms by simp
  then have nn: "0 \<le> \<lceil>r * real N\<rceil>" by (simp add: le_ceiling_iff)
  then have c: "real ?c = of_int \<lceil>r * real N\<rceil>" by simp
  have lo: "r * real N \<le> real ?c" unfolding c by (rule le_of_int_ceiling)
  have hi: "real ?c < r * real N + 1" unfolding c by linarith
  from lo assms(1) have "r \<le> real ?c / real N" by (simp add: pos_le_divide_eq)
  then show "r \<le> acceptance_frequency N r"
    by (simp add: acceptance_frequency_eq[OF assms])
  from hi assms(1) have "real ?c / real N < (r * real N + 1) / real N"
    by (simp add: divide_strict_right_mono)
  also have "\<dots> = r + 1 / real N" using assms(1) by (simp add: add_divide_distrib)
  finally show "acceptance_frequency N r < r + 1 / real N"
    by (simp add: acceptance_frequency_eq[OF assms])
qed

lemma acceptance_frequency_tendsto:
  assumes "0 \<le> r" and "r \<le> 1"
  shows "(\<lambda>N. acceptance_frequency N r) \<longlonglongrightarrow> r"
proof (rule tendsto_sandwich)
  show "eventually (\<lambda>N. r \<le> acceptance_frequency N r) sequentially"
    using eventually_gt_at_top[of 0]
    by eventually_elim (rule acceptance_frequency_bounds(1)[OF _ assms])
  show "eventually (\<lambda>N. acceptance_frequency N r \<le> r + 1 / real N) sequentially"
    using eventually_gt_at_top[of 0]
    by eventually_elim (rule less_imp_le, rule acceptance_frequency_bounds(2)[OF _ assms])
  show "(\<lambda>N. r) \<longlonglongrightarrow> r" by simp
  have "(\<lambda>N. r + 1 / real N) \<longlonglongrightarrow> r + 0"
    by (intro tendsto_add tendsto_const lim_1_over_n)
  then show "(\<lambda>N. r + 1 / real N) \<longlonglongrightarrow> r" by simp
qed

text \<open>
  Claim C8. In each \<^verbatim>\<open>run\<close> call with \<open>n\<close> samples the criterion is drawn, \<open>n\<close> uniform
  values on \<open>[0, 1]\<close>, from the generator state left by the draw of the wavelengths,
  which follows the draw of the angles. Sample \<open>i\<close> is accepted if and only if its
  criterion is strictly less than the value \<open>r\<close> of the reflectivity model at the momentum
  transfer of that sample, and the reflected-beam tally receives the histogram of the
  accepted samples. When \<open>r\<close> lies in \<open>[0, 1]\<close> the rule accepts with probability \<open>r\<close>: of
  the \<open>N\<close> equally likely values of a uniform criterion of resolution \<open>N\<close> the accepted
  fraction is at least \<open>r\<close> and less than \<open>r + 1/N\<close>, and it tends to \<open>r\<close> as the resolution
  grows.
\<close>

theorem accept_iff_criterion_below_reflectivity:
  assumes "run env sim n g = Inr (sim1, g1)" and "i < n"
  shows "\<exists>bt offsets ga gb gc hr.
      sample_batch env sim n g = Inr (bt, g1) \<and>
      rvs env (angular_dist sim) n g = Inr (offsets, ga) \<and>
      rvs env (spectrum_dist sim) n ga = Inr (wavelengths bt, gb) \<and>
      draws (rng_uniform env 0 1) n gb = (criterion bt, gc) \<and>
      length (criterion bt) = n \<and> length (accepted bt) = n \<and> length (batch_q bt) = n \<and>
      batch_q bt ! i = general_q env (offsets ! i + angle sim) (wavelengths bt ! i) \<and>
      (accepted bt ! i \<longleftrightarrow> criterion bt ! i < model_call (model sim) (batch_q bt ! i)) \<and>
      np_histogram (mask_select (jittered_wavelengths bt) (accepted bt))
        (wavelength_bins sim) = Inr hr \<and>
      reflected_beam sim1 = map2 (+) (reflected_beam sim) hr \<and>
      (0 \<le> model_call (model sim) (batch_q bt ! i) \<and>
       model_call (model sim) (batch_q bt ! i) \<le> 1 \<longrightarrow>
         (\<forall>N. 0 < N \<longrightarrow>
            model_call (model sim) (batch_q bt ! i)
              \<le> acceptance_frequency N (model_call (model sim) (batch_q bt ! i)) \<and>
            acceptance_frequency N (model_call (model sim) (batch_q bt ! i))
              < model_call (model sim) (batch_q bt ! i) + 1 / real N) \<and>
         (\<lambda>N. acceptance_frequency N (model_call (model sim) (batch_q bt ! i)))
           \<longlonglongrightarrow> model_call (model sim) (batch_q bt ! i))"
proof -
  from assms(1) obtain bt s1 where sb: "sample_batch env sim n g = Inr (bt, g1)"
    and uc: "update_counts sim bt = Inr s1"
    and s: "sim1 = update_res_kernel env s1 bt"
    by (rule run_InrD)
  from uc obtain hr where
    h: "np_histogram (mask_select (jittered_wavelengths bt) (accepted bt))
          (wavelength_bins sim) = Inr hr"
    and d: "reflected_beam s1 = map2 (+) (reflected_beam sim) hr"
    by (auto simp: update_counts_def split: sum.splits)
  from sb obtain offsets ga gb gc where
    ra: "rvs env (angular_dist sim) n g = Inr (offsets, ga)"
    and rw: "rvs env (spectrum_dist sim) n ga = Inr (wavelengths bt, gb)"
    and c: "draws (rng_uniform env 0 1) n gb = (criterion bt, gc)"
    and ang: "angles bt = map (\<lambda>v. v + angle sim) offsets"
    and q: "batch_q bt = map2 (general_q env) (angles bt) (wavelengths bt)"
    and r: "batch_r bt = map (model_call (model sim)) (batch_q bt)"
    and acc: "accepted bt = map2 (\<lambda>c r. c < r) (criterion bt) (batch_r bt)"
    by (rule sample_batch_InrD)
  note l = sample_batch_lengths[OF sb]
  let ?r = "model_call (model sim) (batch_q bt ! i)"
  from rvs_length[OF ra] have lo: "length offsets = n" .
  from q ang lo l(1) assms(2) have
    qi: "batch_q bt ! i = general_q env (offsets ! i + angle sim) (wavelengths bt ! i)"
    by simp
  from acc l(3,5) assms(2) have "accepted bt ! i \<longleftrightarrow> criterion bt ! i < batch_r bt ! i"
    by simp
  with r l(4) assms(2) have a: "accepted bt ! i \<longleftrightarrow> criterion bt ! i < ?r"
    by simp
  from d s have d1: "reflected_beam sim1 = map2 (+) (reflected_beam sim) hr"
    by (simp add: update_res_kernel_fields)
  have pr: "0 \<le> ?r \<and> ?r \<le> 1 \<longrightarrow>
         (\<forall>N. 0 < N \<longrightarrow> ?r \<le> acceptance_frequency N ?r \<and>
                acceptance_frequency N ?r < ?r + 1 / real N) \<and>
         (\<lambda>N. acceptance_frequency N ?r) \<longlonglongrightarrow> ?r"
    using acceptance_frequency_bounds[of _ ?r] acceptance_frequency_tendsto[of ?r]
    by blast
  from sb ra rw c l(3,6,4) qi a h d1 pr show ?thesis by blast
qed

theorem accept_iff_witness:
  "run ex_env ex_sim1 3 (9 / 10) = Inr (ex_sim2, 9 / 10) \<and> (0 :: nat) < 3 \<and>
   (\<exists>bt offsets ga gb gc hr.
      sample_batch ex_env ex_sim1 3 (9 / 10) = Inr (bt, 9 / 10) \<and>
      rvs ex_env (angular_dist ex_sim1) 3 (9 / 10) = Inr (offsets, ga) \<and>
      rvs ex_env (spectrum_dist ex_sim1) 3 ga = Inr (wavelengths bt, gb) \<and>
      draws (rng_uniform ex_env 0 1) 3 gb = (criterion bt, gc) \<and>
      (accepted bt ! 0 \<longleftrightarrow> criterion bt ! 0 < model_call (model ex_sim1) (batch_q bt ! 0)) \<and>
      reflected_beam ex_sim2 = map2 (+) (reflected_beam ex_sim1) hr \<and>
      3 / 4 \<le> acceptance_frequency 4 (3 / 4) \<and>
      acceptance_frequency 4 (3 / 4) < 3 / 4 + 1 / real 4 \<and>
      (\<lambda>N. acceptance_frequency N (3 / 4)) \<longlonglongrightarrow> 3 / 4)"
proof -
  have l: "(0 :: nat) < 3" by simp
  have m: "model_call (model ex_sim1) v = 3 / 4" for v
    by (simp add: ex_sim1_def ex_sim0_def ex_model_def)
  have n4: "(0 :: nat) < 4" by simp
  from accept_iff_criterion_below_reflectivity[OF ex_run_2 l]
  obtain bt offsets ga gb gc hr where
    f: "sample_batch ex_env ex_sim1 3 (9 / 10) = Inr (bt, 9 / 10)"
      "rvs ex_env (angular_dist ex_sim1) 3 (9 / 10) = Inr (offsets, ga)"
      "rvs ex_env (spectrum_dist ex_sim1) 3 ga = Inr (wavelengths bt, gb)"
      "draws (rng_uniform ex_env 0 1) 3 gb = (criterion bt, gc)"
      "accepted bt ! 0 \<longleftrightarrow> criterion bt ! 0 < model_call (model ex_sim1) (batch_q bt ! 0)"
      "reflected_beam ex_sim2 = map2 (+) (reflected_beam ex_sim1) hr"
    and p: "0 \<le> model_call (model ex_sim1) (batch_q bt ! 0) \<and>
       model_call (model ex_sim1) (batch_q bt ! 0) \<le> 1 \<longrightarrow>
         (\<forall>N. 0 < N \<longrightarrow>
            model_call (model ex_sim1) (batch_q bt ! 0)
              \<le> acceptance_frequency N (model_call (model ex_sim1) (batch_q bt ! 0)) \<and>
            acceptance_frequency N (model_call (model ex_sim1) (batch_q bt ! 0))
              < model_call (model ex_sim1) (batch_q bt ! 0) + 1 / real N) \<and>
         (\<lambda>N. acceptance_frequency N (model_call (model ex_sim1) (batch_q bt ! 0)))
           \<longlonglongrightarrow> model_call (model ex_sim1) (batch_q bt ! 0)"
    by blast
  from p have "(\<forall>N. 0 < N \<longrightarrow> 3 / 4 \<le> acceptance_frequency N (3 / 4) \<and>
            acceptance_frequency N (3 / 4) < 3 / 4 + 1 / real N) \<and>
         (\<lambda>N. acceptance_frequency N (3 / 4)) \<longlonglongrightarrow> 3 / 4"
    unfolding m by simp
  with n4 have "3 / 4 \<le> acceptance_frequency 4 (3 / 4)"
    "acceptance_frequency 4 (3 / 4) < 3 / 4 + 1 / real 4"
    "(\<lambda>N. acceptance_frequency N (3 / 4)) \<longlonglongrightarrow> 3 / 4"
    by blast+
  with f ex_run_2 l show ?thesis by blast
qed

subsection \<open>The reflectivity dataset and the wavelength generator\<close>

lemma reflectivity_data_x:
  "data_x (reflectivity_data env sim) = nominal_q sim"
  "data_x_err (reflectivity_data env sim) =
     map (\<lambda>v. sqrt ((dlambda sim)\<^sup>2 + (dtheta sim)\<^sup>2 + (0.68 * rebin sim)\<^sup>2) * v)
         (nominal_q sim)"
  by (simp_all add: reflectivity_data_def Let_def split: prod.splits)

text \<open>
  Claim C7. The dataset returned by the \<^verbatim>\<open>reflectivity\<close> property has one point per
  bin, at the nominal momentum transfers of the bins, and the resolution width of every
  point is \<open>sqrt (dlambda\<^sup>2 + dtheta\<^sup>2 + (0.68 * rebin)\<^sup>2)\<close> times the momentum transfer of
  that point, with the stored fractions \<open>dlambda\<close>, \<open>dtheta\<close> and \<open>rebin\<close>. The dataset
  container may return the points in another order (refnx sorts them by momentum
  transfer): its \<^verbatim>\<open>synthesise\<close> is only assumed to keep each abscissa with its width.
\<close>

theorem resolution_width:
  assumes "reflectivity env sim g = (d, g1)"
    and "mset (zip (data_x (fst (synthesise env (reflectivity_data env sim) g)))
                   (data_x_err (fst (synthesise env (reflectivity_data env sim) g)))) =
         mset (zip (data_x (reflectivity_data env sim))
                   (data_x_err (reflectivity_data env sim)))"
    and "length (data_x_err (fst (synthesise env (reflectivity_data env sim) g))) =
         length (data_x (fst (synthesise env (reflectivity_data env sim) g)))"
  shows "mset (data_x d) = mset (nominal_q sim) \<and>
         (\<forall>i < length (data_x d).
            data_x_err d ! i =
              sqrt ((dlambda sim)\<^sup>2 + (dtheta sim)\<^sup>2 + (0.68 * rebin sim)\<^sup>2) * data_x d ! i)"
proof -
  let ?dx = "sqrt ((dlambda sim)\<^sup>2 + (dtheta sim)\<^sup>2 + (0.68 * rebin sim)\<^sup>2)"
  let ?pairs = "map (\<lambda>v. (v, ?dx * v)) (nominal_q sim)"
  from assms(1) have d: "d = fst (synthesise env (reflectivity_data env sim) g)"
    by (simp add: reflectivity_def)
  from assms(2,3) have a2: "mset (zip (data_x d) (data_x_err d)) =
         mset (zip (data_x (reflectivity_data env sim))
                   (data_x_err (reflectivity_data env sim)))"
    and a3: "length (data_x_err d) = length (data_x d)"
    by (simp_all only: d)
  have "zip (data_x (reflectivity_data env sim)) (data_x_err (reflectivity_data env sim)) =
        ?pairs"
    by (simp add: reflectivity_data_x zip_map2 zip_same_conv_map)
  with a2 have m: "mset (zip (data_x d) (data_x_err d)) = mset ?pairs" by simp
  have "map fst (zip (data_x d) (data_x_err d)) = data_x d"
    using a3 by simp
  then have "mset (data_x d) = image_mset fst (mset (zip (data_x d) (data_x_err d)))"
    by (metis mset_map)
  also have "\<dots> = image_mset fst (mset ?pairs)" by (simp only: m)
  also have "\<dots> = mset (nominal_q sim)" by (simp add: image_mset.compositionality comp_def)
  finally have points: "mset (data_x d) = mset (nominal_q sim)" .
  have width: "data_x_err d ! i = ?dx * data_x d ! i" if "i < length (data_x d)" for i
  proof -
    from that a3 have "(data_x d ! i, data_x_err d ! i) \<in> set (zip (data_x d) (data_x_err d))"
      by (metis in_set_zip fst_conv snd_conv)
    also have "set (zip (data_x d) (data_x_err d)) = set ?pairs"
      using m by (metis set_mset_mset)
    finally show ?thesis by auto
  qed
  from points width show ?thesis by simp
qed

theorem resolution_width_witness:
  "data_x (fst (reflectivity ex_env ex_sim2 (1 / 2))) = [5 / 71, 5 / 33] \<and>
   nominal_q ex_sim2 = [5 / 33, 5 / 71] \<and>
   mset (data_x (fst (reflectivity ex_env ex_sim2 (1 / 2)))) = mset (nominal_q ex_sim2) \<and>
   data_x_err (fst (reflectivity ex_env ex_sim2 (1 / 2))) ! 0 =
     sqrt ((dlambda ex_sim2)\<^sup>2 + (dtheta ex_sim2)\<^sup>2 + (0.68 * rebin ex_sim2)\<^sup>2)
       * data_x (fst (reflectivity ex_env ex_sim2 (1 / 2))) ! 0"
proof -
  let ?d = "fst (reflectivity ex_env ex_sim2 (1 / 2))"
  let ?D = "reflectivity_data ex_env ex_sim2"
  have s: "synthesise ex_env =
        (\<lambda>d g. (\<lparr>data_x = rev (data_x d), data_y = rev (data_y d),
                   data_y_err = rev (data_y_err d), data_x_err = rev (data_x_err d)\<rparr>, g))"
    by (simp add: ex_env_def)
  have q: "nominal_q ex_sim2 = [5 / 33, 5 / 71]" by (simp add: ex_sim2_def ex_sim0_def)
  have x: "data_x (fst (synthesise ex_env ?D (1 / 2))) = rev (data_x ?D)"
    and e: "data_x_err (fst (synthesise ex_env ?D (1 / 2))) = rev (data_x_err ?D)"
    by (simp_all add: s)
  have r: "reflectivity ex_env ex_sim2 (1 / 2) = (?d, 1 / 2)"
    by (simp add: reflectivity_def s)
  have l: "length (data_x_err (fst (synthesise ex_env ?D (1 / 2)))) =
           length (data_x (fst (synthesise ex_env ?D (1 / 2))))"
    by (simp add: x e reflectivity_data_x)
  have "zip (data_x (fst (synthesise ex_env ?D (1 / 2))))
            (data_x_err (fst (synthesise ex_env ?D (1 / 2)))) =
        rev (zip (data_x ?D) (data_x_err ?D))"
    unfolding x e by (rule zip_rev) (simp add: reflectivity_data_x)
  then have m: "mset (zip (data_x (fst (synthesise ex_env ?D (1 / 2))))
                         (data_x_err (fst (synthesise ex_env ?D (1 / 2))))) =
         mset (zip (data_x ?D) (data_x_err ?D))"
    by simp
  have xs: "data_x ?d = [5 / 71, 5 / 33]"
    by (simp add: reflectivity_def x reflectivity_data_x q)
  then have i: "0 < length (data_x ?d)" by simp
  from resolution_width[OF r m l] i xs q show ?thesis by simp
qed

text \<open>
  Claim C10. With \<^verbatim>\<open>force_uniform_wavelength\<close> set, the wavelength generator of a
  constructed simulator is the uniform distribution with location \<open>lo_wavelength - 1\<close>
  and width \<open>hi_wavelength - lo_wavelength + 1\<close>: its support is
  \<open>[lo_wavelength - 1, hi_wavelength]\<close>, one unit below the configured lower bound.
\<close>

theorem uniform_wavelength_support:
  assumes "ReflectSimulator_init env m args = Inr sim"
    and "arg_force_uniform_wavelength args"
  shows "spectrum_dist sim =
           Uniform (arg_lo_wavelength args - 1)
                   (arg_hi_wavelength args - arg_lo_wavelength args + 1) \<and>
         support (spectrum_dist sim) =
           Some (arg_lo_wavelength args - 1, arg_hi_wavelength args)"
proof -
  from assms(1) have "make_spectrum_dist env args = Inr (spectrum_dist sim)"
    by (auto simp: ReflectSimulator_init_def Let_def split: sum.splits if_splits prod.splits)
  with assms(2) have "spectrum_dist sim =
           Uniform (arg_lo_wavelength args - 1)
                   (arg_hi_wavelength args - arg_lo_wavelength args + 1)"
    by (simp add: make_spectrum_dist_def)
  then show ?thesis by (simp add: support_def)
qed

theorem uniform_wavelength_support_witness:
  "ReflectSimulator_init ex_env ex_model ex_args = Inr ex_sim0 \<and>
   arg_force_uniform_wavelength ex_args \<and>
   spectrum_dist ex_sim0 = Uniform (2.8 - 1) (18 - 2.8 + 1) \<and>
   support (spectrum_dist ex_sim0) = Some (2.8 - 1, 18)"
proof -
  have f: "arg_force_uniform_wavelength ex_args" by (simp add: ex_args_def)
  have a: "arg_lo_wavelength ex_args = 2.8" "arg_hi_wavelength ex_args = 18"
    by (simp_all add: ex_args_def default_args_def)
  from uniform_wavelength_support[OF ex_init f] ex_init f show ?thesis
    unfolding a by blast
qed

subsection \<open>Determinism of a call\<close>

lemma same_configuration_sym: "same_configuration s t \<Longrightarrow> same_configuration t s"
  by (simp add: same_configuration_def)

lemma sample_batch_same_configuration:
  assumes "same_configuration s t"
  shows "sample_batch env s n g = sample_batch env t n g"
proof -
  have j: "jitter s = jitter t"
    by (intro ext) (simp add: jitter_def same_configurationD[OF assms])
  show ?thesis
    unfolding sample_batch_def same_configurationD[OF assms] j by (rule refl)
qed

lemma update_counts_same_configuration:
  assumes "same_configuration s t"
  shows "(\<exists>e. update_counts s bt = Inl e \<and> update_counts t bt = Inl e) \<or>
         (\<exists>h hr.
            update_counts s bt =
              Inr (s\<lparr>direct_beam := map2 (+) (direct_beam s) h,
                      reflected_beam := map2 (+) (reflected_beam s) hr\<rparr>) \<and>
            update_counts t bt =
              Inr (t\<lparr>direct_beam := map2 (+) (direct_beam t) h,
                      reflected_beam := map2 (+) (reflected_beam t) hr\<rparr>))"
proof -
  let ?b = "wavelength_bins t"
  have b: "wavelength_bins s = ?b" by (rule same_configurationD[OF assms])
  show ?thesis
  proof (cases "np_histogram (jittered_wavelengths bt) ?b")
    case (Inl e)
    then show ?thesis by (simp add: update_counts_def b)
  next
    case h: (Inr h)
    show ?thesis
    proof (cases "np_histogram (mask_select (jittered_wavelengths bt) (accepted bt)) ?b")
      case (Inl e)
      with h show ?thesis by (simp add: update_counts_def b)
    next
      case (Inr hr)
      with h show ?thesis
        by (intro disjI2 exI[of _ h] exI[of _ hr]) (simp add: update_counts_def b)
    qed
  qed
qed

lemma update_res_kernel_same_configuration:
  assumes "same_configuration s t"
  shows "same_configuration (update_res_kernel env s bt) (update_res_kernel env t bt)"
    and "res_kernel s = res_kernel t \<Longrightarrow>
         res_kernel (update_res_kernel env s bt) = res_kernel (update_res_kernel env t bt)"
  using assms
  by (simp_all add: update_res_kernel_def Let_def same_configurationD[OF assms]
      same_configuration_def)

lemma run_kernel_rule:
  assumes "sample_batch env s n g = Inr (bt, g1)" and "run env s n g = Inr (s1, g1)"
  shows "(cap_reached s \<longrightarrow> res_kernel s1 = res_kernel s) \<and>
         (\<not> cap_reached s \<longrightarrow>
            (\<forall>k < length (wavelength_bins s) - 1.
               map_of (res_kernel s1) k =
                 Some (map (astype_float32 env)
                   (q_samples_so_far (res_kernel s) k @ q_for_bin (wavelength_bins s) bt k))))"
proof -
  from assms(2) obtain bt' u where sb: "sample_batch env s n g = Inr (bt', g1)"
    and uc: "update_counts s bt' = Inr u"
    and s1: "s1 = update_res_kernel env u bt'"
    by (rule run_InrD)
  from sb assms(1) have bt: "bt' = bt" by simp
  from uc have uk: "res_kernel u = res_kernel s" "wavelength_bins u = wavelength_bins s"
    by (auto simp: update_counts_def split: sum.splits)
  then have c: "cap_reached u \<longleftrightarrow> cap_reached s" by (simp add: cap_reached_def)
  have "res_kernel s1 = res_kernel s" if "cap_reached s"
    using that c s1 uk(1) by (simp add: update_res_kernel_cases(1))
  moreover have "map_of (res_kernel s1) k =
                 Some (map (astype_float32 env)
                   (q_samples_so_far (res_kernel s) k @ q_for_bin (wavelength_bins s) bt k))"
    if "\<not> cap_reached s" and "k < length (wavelength_bins s) - 1" for k
    using update_res_kernel_entry[of u k env bt] that c uk s1 bt by simp
  ultimately show ?thesis by blast
qed

text \<open>
  Claim C3, as stated, fails for the resolution kernel: what a call adds to it depends
  on the accumulated state through the cap. The two example simulators below are
  identically configured and are called with the same sample count and generator state;
  the one that has reached the cap stores nothing, the other stores two samples in its
  first bin.
\<close>

theorem kernel_increment_depends_on_state:
  "same_configuration ex_full ex_sim0 \<and>
   run ex_env ex_full 2 (1 / 2) = Inr (ex_full1, 1 / 2) \<and>
   run ex_env ex_sim0 2 (1 / 2) = Inr (ex_sim1, 1 / 2) \<and>
   length (q_samples_so_far (res_kernel ex_full) 0) = 500001 \<and>
   length (q_samples_so_far (res_kernel ex_full1) 0) = 500001 \<and>
   length (q_samples_so_far (res_kernel ex_sim0) 0) = 0 \<and>
   length (q_samples_so_far (res_kernel ex_sim1) 0) = 2"
proof -
  have "length (q_samples_so_far (res_kernel ex_full) 0) = 500001"
    "length (q_samples_so_far (res_kernel ex_full1) 0) = 500001"
    "length (q_samples_so_far (res_kernel ex_sim0) 0) = 0"
    "length (q_samples_so_far (res_kernel ex_sim1) 0) = 2"
    by (simp_all add: q_samples_so_far_def ex_full_def ex_full1_def ex_sim0_def ex_sim1_def)
  with ex_same_configuration(6) ex_run_full1 ex_run_1 show ?thesis by blast
qed

text \<open>
  Claim C3, amended. A \<^verbatim>\<open>run\<close> call is a function of the configuration, the
  accumulated state, the sample count and the generator state. For two identically
  configured simulators, the same sample count and the same generator state, both calls
  raise the same error or both return, with the same generator state afterwards, the
  same sampled neutrons and the same histograms added to the direct and to the
  reflected tallies. What is added to the resolution kernel is the same only on the same
  side of the cap: a simulator that has reached the cap keeps its kernel, and in one
  that has not, every bin is extended by the momentum transfers of the sampled neutrons
  digitized to it, the same for both simulators. Equal kernels before give equal
  kernels after.
\<close>

theorem run_deterministic:
  assumes "same_configuration s t"
  shows "(\<exists>e. run env s n g = Inl e \<and> run env t n g = Inl e) \<or>
         (\<exists>s1 t1 g1 bt h hr.
            run env s n g = Inr (s1, g1) \<and> run env t n g = Inr (t1, g1) \<and>
            sample_batch env s n g = Inr (bt, g1) \<and>
            sample_batch env t n g = Inr (bt, g1) \<and>
            same_configuration s1 t1 \<and>
            direct_beam s1 = map2 (+) (direct_beam s) h \<and>
            direct_beam t1 = map2 (+) (direct_beam t) h \<and>
            reflected_beam s1 = map2 (+) (reflected_beam s) hr \<and>
            reflected_beam t1 = map2 (+) (reflected_beam t) hr \<and>
            (cap_reached s \<longrightarrow> res_kernel s1 = res_kernel s) \<and>
            (cap_reached t \<longrightarrow> res_kernel t1 = res_kernel t) \<and>
            (\<not> cap_reached s \<longrightarrow>
               (\<forall>k < length (wavelength_bins s) - 1.
                  map_of (res_kernel s1) k =
                    Some (map (astype_float32 env)
                      (q_samples_so_far (res_kernel s) k @
                       q_for_bin (wavelength_bins s) bt k)))) \<and>
            (\<not> cap_reached t \<longrightarrow>
               (\<forall>k < length (wavelength_bins s) - 1.
                  map_of (res_kernel t1) k =
                    Some (map (astype_float32 env)
                      (q_samples_so_far (res_kernel t) k @
                       q_for_bin (wavelength_bins s) bt k)))) \<and>
            (res_kernel s = res_kernel t \<longrightarrow> res_kernel s1 = res_kernel t1))"
proof (cases "sample_batch env s n g")
  case (Inl e)
  then have s: "sample_batch env s n g = Inl e" .
  with sample_batch_same_configuration[OF assms, of env n g]
  have t: "sample_batch env t n g = Inl e" by simp
  show ?thesis by (simp add: run_def s t)
next
  case (Inr p)
  obtain bt g1 where p: "p = (bt, g1)" by (cases p)
  from Inr p have sb: "sample_batch env s n g = Inr (bt, g1)" by simp
  with sample_batch_same_configuration[OF assms, of env n g]
  have tb: "sample_batch env t n g = Inr (bt, g1)" by simp
  from update_counts_same_configuration[OF assms, of bt]
  show ?thesis
  proof
    assume "\<exists>e. update_counts s bt = Inl e \<and> update_counts t bt = Inl e"
    with sb tb show ?thesis by (auto simp: run_def)
  next
    assume "\<exists>h hr.
            update_counts s bt =
              Inr (s\<lparr>direct_beam := map2 (+) (direct_beam s) h,
                      reflected_beam := map2 (+) (reflected_beam s) hr\<rparr>) \<and>
            update_counts t bt =
              Inr (t\<lparr>direct_beam := map2 (+) (direct_beam t) h,
                      reflected_beam := map2 (+) (reflected_beam t) hr\<rparr>)"
    then obtain h hr where
      us: "update_counts s bt =
              Inr (s\<lparr>direct_beam := map2 (+) (direct_beam s) h,
                      reflected_beam := map2 (+) (reflected_beam s) hr\<rparr>)"
      and ut: "update_counts t bt =
              Inr (t\<lparr>direct_beam := map2 (+) (direct_beam t) h,
                      reflected_beam := map2 (+) (reflected_beam t) hr\<rparr>)"
      by blast
    let ?s = "s\<lparr>direct_beam := map2 (+) (direct_beam s) h,
                 reflected_beam := map2 (+) (reflected_beam s) hr\<rparr>"
    let ?t = "t\<lparr>direct_beam := map2 (+) (direct_beam t) h,
                 reflected_beam := map2 (+) (reflected_beam t) hr\<rparr>"
    from assms have c: "same_configuration ?s ?t"
      by (simp add: same_configuration_def)
    have rs: "run env s n g = Inr (update_res_kernel env ?s bt, g1)"
      by (simp add: run_def sb us)
    have rt: "run env t n g = Inr (update_res_kernel env ?t bt, g1)"
      by (simp add: run_def tb ut)
    have k: "res_kernel s = res_kernel t \<longrightarrow>
             res_kernel (update_res_kernel env ?s bt) =
             res_kernel (update_res_kernel env ?t bt)"
      using update_res_kernel_same_configuration(2)[OF c, of env bt] by simp
    have d: "direct_beam (update_res_kernel env ?s bt) = map2 (+) (direct_beam s) h"
      "direct_beam (update_res_kernel env ?t bt) = map2 (+) (direct_beam t) h"
      "reflected_beam (update_res_kernel env ?s bt) = map2 (+) (reflected_beam s) hr"
      "reflected_beam (update_res_kernel env ?t bt) = map2 (+) (reflected_beam t) hr"
      by (simp_all add: update_res_kernel_fields)
    have b: "wavelength_bins t = wavelength_bins s"
      by (rule same_configurationD(4)[OF assms, symmetric])
    note ks = run_kernel_rule[OF sb rs]
    note kt = run_kernel_rule[OF tb rt, unfolded b]
    from rs rt sb tb update_res_kernel_same_configuration(1)[OF c, of env bt] d k ks kt
    show ?thesis by blast
  qed
qed

theorem run_deterministic_witness:
  "same_configuration ex_sim1 ex_sim0 \<and>
   run ex_env ex_sim1 3 (9 / 10) = Inr (ex_sim2, 9 / 10) \<and>
   res_kernel ex_sim1 = [(0, replicate 2 (10 / 99)), (1, [])] \<and> res_kernel ex_sim0 = [] \<and>
   (\<exists>t1 bt h hr.
      run ex_env ex_sim0 3 (9 / 10) = Inr (t1, 9 / 10) \<and>
      sample_batch ex_env ex_sim1 3 (9 / 10) = Inr (bt, 9 / 10) \<and>
      sample_batch ex_env ex_sim0 3 (9 / 10) = Inr (bt, 9 / 10) \<and>
      same_configuration ex_sim2 t1 \<and>
      direct_beam ex_sim2 = map2 (+) (direct_beam ex_sim1) h \<and>
      direct_beam t1 = map2 (+) (direct_beam ex_sim0) h \<and>
      reflected_beam ex_sim2 = map2 (+) (reflected_beam ex_sim1) hr \<and>
      reflected_beam t1 = map2 (+) (reflected_beam ex_sim0) hr \<and>
      map_of (res_kernel ex_sim2) 1 =
        Some (map (astype_float32 ex_env)
          (q_samples_so_far (res_kernel ex_sim1) 1 @
           q_for_bin (wavelength_bins ex_sim1) bt 1)) \<and>
      map_of (res_kernel t1) 1 =
        Some (map (astype_float32 ex_env)
          (q_samples_so_far (res_kernel ex_sim0) 1 @
           q_for_bin (wavelength_bins ex_sim1) bt 1)))"
proof -
  let ?goal = "\<exists>t1 bt h hr.
      run ex_env ex_sim0 3 (9 / 10) = Inr (t1, 9 / 10) \<and>
      sample_batch ex_env ex_sim1 3 (9 / 10) = Inr (bt, 9 / 10) \<and>
      sample_batch ex_env ex_sim0 3 (9 / 10) = Inr (bt, 9 / 10) \<and>
      same_configuration ex_sim2 t1 \<and>
      direct_beam ex_sim2 = map2 (+) (direct_beam ex_sim1) h \<and>
      direct_beam t1 = map2 (+) (direct_beam ex_sim0) h \<and>
      reflected_beam ex_sim2 = map2 (+) (reflected_beam ex_sim1) hr \<and>
      reflected_beam t1 = map2 (+) (reflected_beam ex_sim0) hr \<and>
      map_of (res_kernel ex_sim2) 1 =
        Some (map (astype_float32 ex_env)
          (q_samples_so_far (res_kernel ex_sim1) 1 @
           q_for_bin (wavelength_bins ex_sim1) bt 1)) \<and>
      map_of (res_kernel t1) 1 =
        Some (map (astype_float32 ex_env)
          (q_samples_so_far (res_kernel ex_sim0) 1 @
           q_for_bin (wavelength_bins ex_sim1) bt 1))"
  have n1: "\<not> cap_reached ex_sim1" "\<not> cap_reached ex_sim0"
    by (simp_all add: cap_reached_iff ex_sim1_def ex_sim0_def)
  have b: "1 < length (wavelength_bins ex_sim1) - 1"
    by (simp add: ex_sim1_def ex_sim0_def)
  have ks: "res_kernel ex_sim1 = [(0, replicate 2 (10 / 99)), (1, [])]" "res_kernel ex_sim0 = []"
    by (simp_all add: ex_sim1_def ex_sim0_def)
  from run_deterministic[OF ex_same_configuration(2), of ex_env 3 "9 / 10"]
  have ?goal
  proof (elim disjE exE conjE)
    fix e
    assume "run ex_env ex_sim1 3 (9 / 10) = Inl e"
    with ex_run_2 show ?goal by simp
  next
    fix s1 t1 g1 bt h hr
    assume r: "run ex_env ex_sim1 3 (9 / 10) = Inr (s1, g1)"
      and t: "run ex_env ex_sim0 3 (9 / 10) = Inr (t1, g1)"
      and sb: "sample_batch ex_env ex_sim1 3 (9 / 10) = Inr (bt, g1)"
         "sample_batch ex_env ex_sim0 3 (9 / 10) = Inr (bt, g1)"
      and c: "same_configuration s1 t1"
      and d: "direct_beam s1 = map2 (+) (direct_beam ex_sim1) h"
         "direct_beam t1 = map2 (+) (direct_beam ex_sim0) h"
         "reflected_beam s1 = map2 (+) (reflected_beam ex_sim1) hr"
         "reflected_beam t1 = map2 (+) (reflected_beam ex_sim0) hr"
      and k: "\<not> cap_reached ex_sim1 \<longrightarrow>
               (\<forall>k < length (wavelength_bins ex_sim1) - 1.
                  map_of (res_kernel s1) k =
                    Some (map (astype_float32 ex_env)
                      (q_samples_so_far (res_kernel ex_sim1) k @
                       q_for_bin (wavelength_bins ex_sim1) bt k)))"
         "\<not> cap_reached ex_sim0 \<longrightarrow>
               (\<forall>k < length (wavelength_bins ex_sim1) - 1.
                  map_of (res_kernel t1) k =
                    Some (map (astype_float32 ex_env)
                      (q_samples_so_far (res_kernel ex_sim0) k @
                       q_for_bin (wavelength_bins ex_sim1) bt k)))"
    from r ex_run_2 have e: "s1 = ex_sim2" "g1 = 9 / 10" by simp_all
    from k n1 b have
      "map_of (res_kernel s1) 1 =
        Some (map (astype_float32 ex_env)
          (q_samples_so_far (res_kernel ex_sim1) 1 @
           q_for_bin (wavelength_bins ex_sim1) bt 1))"
      "map_of (res_kernel t1) 1 =
        Some (map (astype_float32 ex_env)
          (q_samples_so_far (res_kernel ex_sim0) 1 @
           q_for_bin (wavelength_bins ex_sim1) bt 1))"
      by blast+
    with t sb c d show ?goal unfolding e by blast
  qed
  with ex_same_configuration(2) ex_run_2 ks show ?thesis by blast
qed

subsection \<open>The empirical spectrum distribution\<close>





lemma SpectrumDist_init_fields:
  assumes "SpectrumDist_init env x y = Inr sd"
  shows "x \<noteq> []" and "sd_a sd = Min (set x)" and "sd_b sd = Max (set x)"
    and "fudge_factor sd = spl_integral (spl sd) (sd_a sd) (sd_b sd)"
    and "x_interpolated_cdf sd = np_linspace (sd_a sd) (sd_b sd) 1000"
    and "interpolated_cdf sd = map (cdf sd) (x_interpolated_cdf sd)"
proof -
  from assms show ne: "x \<noteq> []"
    by (auto simp: SpectrumDist_init_def split: if_splits)
  from assms ne obtain s where
    sd: "sd = \<lparr>sd_a = Min (set x), sd_b = Max (set x), sd_x = x,
              sd_y = map (\<lambda>v. v / simps env y x) y, spl = s,
              fudge_factor = spl_integral s (Min (set x)) (Max (set x)),
              x_interpolated_cdf = np_linspace (Min (set x)) (Max (set x)) 1000,
              interpolated_cdf = []\<rparr>
            \<lparr>interpolated_cdf :=
               map (cdf \<lparr>sd_a = Min (set x), sd_b = Max (set x), sd_x = x,
                         sd_y = map (\<lambda>v. v / simps env y x) y, spl = s,
                         fudge_factor = spl_integral s (Min (set x)) (Max (set x)),
                         x_interpolated_cdf = np_linspace (Min (set x)) (Max (set x)) 1000,
                         interpolated_cdf = []\<rparr>)
                   (np_linspace (Min (set x)) (Max (set x)) 1000)\<rparr>"
    by (auto simp: SpectrumDist_init_def Let_def split: sum.splits)
  show "sd_a sd = Min (set x)" and "sd_b sd = Max (set x)"
    and "fudge_factor sd = spl_integral (spl sd) (sd_a sd) (sd_b sd)"
    and "x_interpolated_cdf sd = np_linspace (sd_a sd) (sd_b sd) 1000"
    by (simp_all add: sd)
  have "cdf sd = cdf \<lparr>sd_a = Min (set x), sd_b = Max (set x), sd_x = x,
                         sd_y = map (\<lambda>v. v / simps env y x) y, spl = s,
                         fudge_factor = spl_integral s (Min (set x)) (Max (set x)),
                         x_interpolated_cdf = np_linspace (Min (set x)) (Max (set x)) 1000,
                         interpolated_cdf = []\<rparr>"
    by (intro ext) (simp add: cdf_def private_cdf_def sd)
  then show "interpolated_cdf sd = map (cdf sd) (x_interpolated_cdf sd)"
    by (simp add: sd)
qed


lemma ex_sd_init: "SpectrumDist_init ex_env [0, 1, 2, 3] [1, 1, 1, 1] = Inr ex_sd"
  by (simp add: SpectrumDist_init_def ex_env_def ex_sd_def ex_sd0_def Let_def)














text \<open>
  Claim C5. For a constructed \<^verbatim>\<open>SpectrumDist\<close> the cumulative function \<^verbatim>\<open>_cdf\<close> is 0
  at the lower support bound and 1 at the upper one, because the integral of the spline
  from the lower bound is divided by the fudge factor, the integral of the spline over
  the whole support. The spline's integral over the empty interval at the lower bound
  is assumed to be 0 and the fudge factor non-zero.
\<close>

theorem cumulative_at_support_bounds:
  assumes "SpectrumDist_init env x y = Inr sd"
    and "spl_integral (spl sd) (sd_a sd) (sd_a sd) = 0"
    and "fudge_factor sd \<noteq> 0"
  shows "private_cdf sd (sd_a sd) = 0 \<and> private_cdf sd (sd_b sd) = 1"
proof -
  from SpectrumDist_init_fields(4)[OF assms(1)]
  have "private_cdf sd (sd_b sd) = fudge_factor sd / fudge_factor sd"
    by (simp add: private_cdf_def)
  with assms(3) have "private_cdf sd (sd_b sd) = 1" by simp
  moreover from assms(2) have "private_cdf sd (sd_a sd) = 0"
    by (simp add: private_cdf_def)
  ultimately show ?thesis by simp
qed

theorem cumulative_at_support_bounds_witness:
  "SpectrumDist_init ex_env [0, 1, 2, 3] [1, 1, 1, 1] = Inr ex_sd \<and>
   spl_integral (spl ex_sd) (sd_a ex_sd) (sd_a ex_sd) = 0 \<and>
   fudge_factor ex_sd \<noteq> 0 \<and>
   private_cdf ex_sd (sd_a ex_sd) = 0 \<and> private_cdf ex_sd (sd_b ex_sd) = 1"
proof -
  have i: "spl_integral (spl ex_sd) (sd_a ex_sd) (sd_a ex_sd) = 0"
    by (simp add: ex_sd_def ex_sd0_def)
  have f: "fudge_factor ex_sd \<noteq> 0" by (simp add: ex_sd_def ex_sd0_def)
  from cumulative_at_support_bounds[OF ex_sd_init i f] ex_sd_init i f
  show ?thesis by blast
qed

text \<open>
  The public \<^verbatim>\<open>cdf\<close> agrees: it is 1 at the upper bound, and 0 at the lower bound of a
  support that is not a single point.
\<close>

lemma cdf_at_support_bounds:
  "cdf sd (sd_b sd) = 1" "sd_a sd < sd_b sd \<Longrightarrow> cdf sd (sd_a sd) = 0"
  by (simp_all add: cdf_def)

subsection \<open>Construction and malformed configurations\<close>

lemma bad_init: "ReflectSimulator_init ex_env ex_model bad_args = Inr bad_sim"
  by (simp add: ReflectSimulator_init_def make_spectrum_dist_def ex_env_def ex_model_def
      bad_args_def ex_args_def default_args_def bad_sim_def ex_sim0_def)

text \<open>
  The malformed geometry shows up only later: the trapezoid built from it fails the
  parameter test of the example collaborators, and every \<^verbatim>\<open>run\<close> call raises.
\<close>

lemma bad_run_raises: "run ex_env bad_sim n g = Inl ValueError"
  by (simp add: run_def sample_batch_def rvs_def bad_sim_def ex_argcheck)

text \<open>
  Claim C9, as stated, fails: the constructor has no check of its own. With a negative
  footprint and negative slit distances, which the example collaborators take without
  raising, construction returns a simulator that holds the negative footprint.
\<close>

theorem malformed_geometry_is_accepted:
  "arg_footprint bad_args = - 60 \<and> arg_L12 bad_args = - 2859 \<and> arg_L2S bad_args = - 120 \<and>
   ReflectSimulator_init ex_env ex_model bad_args = Inr bad_sim \<and>
   footprint bad_sim = - 60"
  by (simp add: bad_init) (simp add: bad_args_def bad_sim_def)

text \<open>
  When construction fails, the error is that of one of the calls it makes, or the
  \<^verbatim>\<open>ValueError\<close> of \<^verbatim>\<open>np.zeros\<close> for an empty array of bin edges.
\<close>

lemma construction_fails_only_in_a_call:
  assumes "ReflectSimulator_init env m args = Inl e"
  shows "calculate_wavelength_bins env (arg_lo_wavelength args) (arg_hi_wavelength args)
           (arg_rebin args) = Inl e \<or>
         (calculate_wavelength_bins env (arg_lo_wavelength args) (arg_hi_wavelength args)
           (arg_rebin args) = Inr [] \<and> e = ValueError) \<or>
         make_spectrum_dist env args = Inl e \<or>
         slit_optimiser env (arg_footprint args) (arg_dtheta args / 100) (arg_angle args)
           (arg_L2S args) (arg_L12 args) = Inl e \<or>
         (\<exists>s1 s2.
            slit_optimiser env (arg_footprint args) (arg_dtheta args / 100) (arg_angle args)
              (arg_L2S args) (arg_L12 args) = Inr (s1, s2) \<and>
            general_div env s1 s2 (arg_L12 args) = Inl e)"
  using assms
  by (auto simp: ReflectSimulator_init_def Let_def split: sum.splits if_splits prod.splits)

lemma empty_spectrum_table_fails:
  assumes "\<not> arg_force_uniform_wavelength args"
    and "PN_process env (max 0 (arg_lo_wavelength args - 1)) (arg_hi_wavelength args + 1) =
         Inr ([], is)"
  shows "make_spectrum_dist env args = Inl ValueError"
  using assms by (simp add: make_spectrum_dist_def SpectrumDist_init_def)

text \<open>
  Claim C9, amended. The constructor validates nothing itself. Whenever the calls it
  makes return (the bin-edge calculation with a non-empty array, the construction of the
  wavelength generator, the slit optimiser and the divergence calculation), it returns
  a simulator that holds the bin edges, the wavelength generator and the footprint as
  given, whatever the order of the edges or the sign of the geometry values. A
  zero-length spectrum table does fail at construction: \<^verbatim>\<open>SpectrumDist\<close> raises the
  \<^verbatim>\<open>ValueError\<close> of \<^verbatim>\<open>np.min\<close> on an empty array.
\<close>

theorem construction_without_validation:
  assumes "calculate_wavelength_bins env (arg_lo_wavelength args) (arg_hi_wavelength args)
             (arg_rebin args) = Inr bins"
    and "bins \<noteq> []"
    and "make_spectrum_dist env args = Inr sdist"
    and "slit_optimiser env (arg_footprint args) (arg_dtheta args / 100) (arg_angle args)
           (arg_L2S args) (arg_L12 args) = Inr (s1, s2)"
    and "general_div env s1 s2 (arg_L12 args) = Inr (dv, alpha, beta)"
  shows "(\<exists>sim. ReflectSimulator_init env m args = Inr sim \<and>
                wavelength_bins sim = bins \<and> spectrum_dist sim = sdist \<and>
                footprint sim = arg_footprint args) \<and>
         SpectrumDist_init env [] y = Inl ValueError"
proof -
  have "SpectrumDist_init env [] y = Inl ValueError"
    by (simp add: SpectrumDist_init_def)
  moreover have "\<exists>sim. ReflectSimulator_init env m args = Inr sim \<and>
                wavelength_bins sim = bins \<and> spectrum_dist sim = sdist \<and>
                footprint sim = arg_footprint args"
    using assms by (simp add: ReflectSimulator_init_def Let_def)
  ultimately show ?thesis by simp
qed

theorem construction_without_validation_witness:
  "calculate_wavelength_bins ex_env (arg_lo_wavelength bad_args) (arg_hi_wavelength bad_args)
     (arg_rebin bad_args) = Inr [14 / 5, 52 / 5, 18] \<and>
   make_spectrum_dist ex_env bad_args = Inr (Uniform (9 / 5) (81 / 5)) \<and>
   slit_optimiser ex_env (arg_footprint bad_args) (arg_dtheta bad_args / 100)
     (arg_angle bad_args) (arg_L2S bad_args) (arg_L12 bad_args) =
     Inr (- (99 / 50), - (99 / 100)) \<and>
   general_div ex_env (- (99 / 50)) (- (99 / 100)) (arg_L12 bad_args) =
     Inr (99 / 95300, 99 / 190600, - (33 / 190600)) \<and>
   (\<exists>sim. ReflectSimulator_init ex_env ex_model bad_args = Inr sim \<and>
          wavelength_bins sim = [14 / 5, 52 / 5, 18] \<and>
          spectrum_dist sim = Uniform (9 / 5) (81 / 5) \<and>
          footprint sim = arg_footprint bad_args) \<and>
   SpectrumDist_init ex_env [] [] = Inl ValueError"
proof -
  have b: "calculate_wavelength_bins ex_env (arg_lo_wavelength bad_args)
     (arg_hi_wavelength bad_args) (arg_rebin bad_args) = Inr [14 / 5, 52 / 5, 18]"
    by (simp add: ex_env_def bad_args_def ex_args_def default_args_def)
  have ne: "[14 / 5, 52 / 5, 18 :: real] \<noteq> []" by simp
  have sd: "make_spectrum_dist ex_env bad_args = Inr (Uniform (9 / 5) (81 / 5))"
    by (simp add: make_spectrum_dist_def bad_args_def ex_args_def default_args_def)
  have so: "slit_optimiser ex_env (arg_footprint bad_args) (arg_dtheta bad_args / 100)
     (arg_angle bad_args) (arg_L2S bad_args) (arg_L12 bad_args) =
     Inr (- (99 / 50), - (99 / 100))"
    by (simp add: ex_env_def bad_args_def ex_args_def default_args_def)
  have dv: "general_div ex_env (- (99 / 50)) (- (99 / 100)) (arg_L12 bad_args) =
     Inr (99 / 95300, 99 / 190600, - (33 / 190600))"
    by (simp add: ex_env_def bad_args_def ex_args_def default_args_def)
  from construction_without_validation[OF b ne sd so dv, of ex_model "[]"] b sd so dv
  show ?thesis by blast
qed

end
